theory Spec2Isabelle
  imports
    Main
    "HOL-Library.Multiset"
    "HOL-Library.Char_ord"
    "HOL-Library.List_Lexorder"
    "HOL-Library.Product_Lexorder"
begin

section \<open>go-audit: a shallow embedding of the rule engine\<close>

text \<open>
  Go strings are byte sequences; they are modelled as \<^typ>\<open>string\<close> (a list of
  \<^typ>\<open>char\<close>, one per byte).  With \<open>Char_ord\<close> and \<open>List_Lexorder\<close> the order
  \<open><\<close> on \<^typ>\<open>string\<close> is the bytewise lexicographic order, which is what Go's
  \<open><\<close> on strings computes.
\<close>

subsection \<open>pkg/config: Config\<close>

text \<open>
  \<open>RuleSettings\<close> (a map to untyped JSON values) is read by no function modelled
  here and is left out of the record.
\<close>

record Config =
  EnabledRules :: "string list"
  DisabledRules :: "string list"
  SeverityOverrides :: "(string \<times> string) list"
  Exclude :: "string list"

definition DefaultConfig :: Config where
  "DefaultConfig =
     \<lparr> EnabledRules = [], DisabledRules = [], SeverityOverrides = [],
       Exclude = [''vendor/'', ''testdata/'', ''*_test.go''] \<rparr>"

text \<open>The loop \<open>for _, id := range ids { if id == ruleID { return ... } }\<close>.\<close>

fun range_finds :: "string list \<Rightarrow> string \<Rightarrow> bool" where
  "range_finds [] ruleID = False"
| "range_finds (x # ids) ruleID = (if x = ruleID then True else range_finds ids ruleID)"

definition IsRuleEnabled :: "Config \<Rightarrow> string \<Rightarrow> bool" where
  "IsRuleEnabled c ruleID =
     (if range_finds (DisabledRules c) ruleID then False
      else if length (EnabledRules c) = 0 then True
      else if range_finds (EnabledRules c) ruleID then True
      else False)"

subsection \<open>pkg/report: Issue, Severity, sortIssues\<close>

type_synonym Severity = string

definition SeverityCritical :: Severity where "SeverityCritical = ''CRITICAL''"
definition SeverityHigh :: Severity where "SeverityHigh = ''HIGH''"
definition SeverityMedium :: Severity where "SeverityMedium = ''MEDIUM''"
definition SeverityLow :: Severity where "SeverityLow = ''LOW''"
definition SeverityInfo :: Severity where "SeverityInfo = ''INFO''"

record Issue =
  RuleID :: string
  Severity :: Severity
  FilePath :: string
  Line :: int
  Column :: int
  Message :: string
  Description :: string

text \<open>
  \<open>severityOrder\<close> is a Go map literal; reading a key that is absent yields the zero
  value \<open>0\<close>.
\<close>

definition severityOrder :: "Severity \<Rightarrow> int" where
  "severityOrder s =
     (case map_of [(SeverityCritical, 0), (SeverityHigh, 1), (SeverityMedium, 2),
                   (SeverityLow, 3), (SeverityInfo, 4)] s of
        Some r \<Rightarrow> r
      | None \<Rightarrow> 0)"

text \<open>The comparison closure handed to \<open>sort.Slice\<close>, on the two elements it reads.\<close>

definition issue_less :: "Issue \<Rightarrow> Issue \<Rightarrow> bool" where
  "issue_less a b =
     (if Severity a \<noteq> Severity b then severityOrder (Severity a) < severityOrder (Severity b)
      else if FilePath a \<noteq> FilePath b then FilePath a < FilePath b
      else Line a < Line b)"

text \<open>
  \<open>sort.Slice\<close> belongs to Go's standard library and is a parameter of the model.
  What the library documents is its contract: when \<open>less\<close> is a strict weak ordering
  of the elements, the slice is permuted into ascending order with respect to
  \<open>less\<close>.
\<close>

type_synonym 'a sorter = "('a \<Rightarrow> 'a \<Rightarrow> bool) \<Rightarrow> 'a list \<Rightarrow> 'a list"

definition strict_weak_on :: "'a set \<Rightarrow> ('a \<Rightarrow> 'a \<Rightarrow> bool) \<Rightarrow> bool" where
  "strict_weak_on A lt =
     ((\<forall>x\<in>A. \<not> lt x x) \<and>
      (\<forall>x\<in>A. \<forall>y\<in>A. \<forall>z\<in>A. lt x y \<and> lt y z \<longrightarrow> lt x z) \<and>
      (\<forall>x\<in>A. \<forall>y\<in>A. \<forall>z\<in>A. \<not> lt x y \<and> \<not> lt y z \<longrightarrow> \<not> lt x z))"

definition sort_Slice_contract :: "'a sorter \<Rightarrow> bool" where
  "sort_Slice_contract srt =
     (\<forall>lt xs. strict_weak_on (set xs) lt \<longrightarrow>
        mset (srt lt xs) = mset xs \<and> sorted_wrt (\<lambda>a b. \<not> lt b a) (srt lt xs))"

definition sortIssues :: "Issue sorter \<Rightarrow> Issue list \<Rightarrow> Issue list" where
  "sortIssues sort_Slice issues = sort_Slice issue_less issues"

text \<open>
  The library's insertion sort (\<open>insertionSortLessFunc\<close>, which \<open>sort.Slice\<close> runs on
  short slices): element \<open>i\<close> is swapped to the left while it is less than its left
  neighbour.  \<open>shift_left\<close> works on the reversed sorted prefix.
\<close>

fun shift_left :: "('a \<Rightarrow> 'a \<Rightarrow> bool) \<Rightarrow> 'a \<Rightarrow> 'a list \<Rightarrow> 'a list" where
  "shift_left lt x [] = [x]"
| "shift_left lt x (p # ps) = (if lt x p then p # shift_left lt x ps else x # p # ps)"

definition insertionSort :: "'a sorter" where
  "insertionSort lt xs = rev (fold (shift_left lt) xs [])"

text \<open>The sort key of the specification: severity rank, file path, line.\<close>

definition issue_key :: "Issue \<Rightarrow> int \<times> string \<times> int" where
  "issue_key i = (severityOrder (Severity i), FilePath i, Line i)"

definition known_severities :: "Severity list" where
  "known_severities =
     [SeverityCritical, SeverityHigh, SeverityMedium, SeverityLow, SeverityInfo]"


text \<open>The five issues of the repository's \<open>TestSortIssues\<close>.\<close>

definition test_sort_issues :: "Issue list" where
  "test_sort_issues =
    [\<lparr>RuleID = ''SEC001'', Severity = SeverityMedium, FilePath = ''c.go'', Line = 10,
      Column = 0, Message = ''Medium severity issue'', Description = ''Medium description''\<rparr>,
     \<lparr>RuleID = ''SEC002'', Severity = SeverityCritical, FilePath = ''a.go'', Line = 20,
      Column = 0, Message = ''Critical severity issue'', Description = ''Critical description''\<rparr>,
     \<lparr>RuleID = ''SEC003'', Severity = SeverityHigh, FilePath = ''b.go'', Line = 30,
      Column = 0, Message = ''High severity issue'', Description = ''High description''\<rparr>,
     \<lparr>RuleID = ''SEC004'', Severity = SeverityCritical, FilePath = ''a.go'', Line = 10,
      Column = 0, Message = ''Another critical in same file, earlier line'',
      Description = ''Critical description''\<rparr>,
     \<lparr>RuleID = ''SEC005'', Severity = SeverityCritical, FilePath = ''a.go'', Line = 30,
      Column = 0, Message = ''Another critical in same file, later line'',
      Description = ''Critical description''\<rparr>]"

subsection \<open>Strings (package strings)\<close>

definition HasPrefix :: "string \<Rightarrow> string \<Rightarrow> bool" where
  "HasPrefix s prefix = (take (length prefix) s = prefix)"

definition HasSuffix :: "string \<Rightarrow> string \<Rightarrow> bool" where
  "HasSuffix s suffix =
     (length suffix \<le> length s \<and> drop (length s - length suffix) s = suffix)"

fun Contains :: "string \<Rightarrow> string \<Rightarrow> bool" where
  "Contains [] substr = (substr = [])"
| "Contains (c # s) substr = (HasPrefix (c # s) substr \<or> Contains s substr)"

text \<open>\<open>strings.Trim\<close> with a cutset of ASCII characters removes bytes at both ends.\<close>

definition Trim :: "string \<Rightarrow> string \<Rightarrow> string" where
  "Trim s cutset =
     rev (dropWhile (\<lambda>c. c \<in> set cutset) (rev (dropWhile (\<lambda>c. c \<in> set cutset) s)))"

text \<open>
  \<open>strings.ToLower\<close> on the ASCII letters.  Go also maps upper-case letters outside
  ASCII; the model leaves every other byte unchanged.
\<close>

definition lower_char :: "char \<Rightarrow> char" where
  "lower_char c =
     (case map_of (zip ''ABCDEFGHIJKLMNOPQRSTUVWXYZ'' ''abcdefghijklmnopqrstuvwxyz'') c of
        Some l \<Rightarrow> l
      | None \<Rightarrow> c)"

definition upper_char :: "char \<Rightarrow> char" where
  "upper_char c =
     (case map_of (zip ''abcdefghijklmnopqrstuvwxyz'' ''ABCDEFGHIJKLMNOPQRSTUVWXYZ'') c of
        Some u \<Rightarrow> u
      | None \<Rightarrow> c)"

definition ToLower :: "string \<Rightarrow> string" where
  "ToLower s = map lower_char s"

subsection \<open>Regular expressions (package regexp)\<close>

text \<open>
  The patterns of the rules are written in a small algebra of regular expressions over
  bytes and matched with derivatives.  \<open>MatchString\<close> is Go's unanchored search: some
  substring of the text matches.  Go matches runes; on ASCII text runes and bytes
  coincide.  For the two patterns \<open>%[dtv]\<close> and \<open>%[^dtv]\<close> of the injection rule the
  byte model agrees with Go on every text, because \<open>%\<close>, \<open>d\<close>, \<open>t\<close> and \<open>v\<close> are
  ASCII and never part of a longer UTF-8 sequence.  A pattern compiled with
  \<open>(?i)\<close> is written with both cases of each ASCII letter.  On text outside ASCII
  the model differs from Go in three ways: Go's case folding also lets \<open>s\<close> and
  \<open>k\<close> match U+017F and U+212A, a negated class and \<open>.\<close> consume one rune where
  the model consumes one byte, and \<open>strings.ToLower\<close> maps letters the model leaves
  alone.  Every text the theorems evaluate these patterns on is ASCII.
\<close>

datatype rx = Never | Empty | Cls "char list" | NotCls "char list"
  | Seq rx rx | Alt rx rx | Star rx

fun nullable :: "rx \<Rightarrow> bool" where
  "nullable Never = False"
| "nullable Empty = True"
| "nullable (Cls cs) = False"
| "nullable (NotCls cs) = False"
| "nullable (Seq r s) = (nullable r \<and> nullable s)"
| "nullable (Alt r s) = (nullable r \<or> nullable s)"
| "nullable (Star r) = True"

fun mk_seq :: "rx \<Rightarrow> rx \<Rightarrow> rx" where
  "mk_seq Never s = Never"
| "mk_seq Empty s = s"
| "mk_seq r s = Seq r s"

fun mk_alt :: "rx \<Rightarrow> rx \<Rightarrow> rx" where
  "mk_alt Never s = s"
| "mk_alt r Never = r"
| "mk_alt r s = Alt r s"

fun deriv :: "char \<Rightarrow> rx \<Rightarrow> rx" where
  "deriv c Never = Never"
| "deriv c Empty = Never"
| "deriv c (Cls cs) = (if c \<in> set cs then Empty else Never)"
| "deriv c (NotCls cs) = (if c \<in> set cs then Never else Empty)"
| "deriv c (Seq r s) =
     (if nullable r then mk_alt (mk_seq (deriv c r) s) (deriv c s) else mk_seq (deriv c r) s)"
| "deriv c (Alt r s) = mk_alt (deriv c r) (deriv c s)"
| "deriv c (Star r) = mk_seq (deriv c r) (Star r)"

fun match_prefix :: "rx \<Rightarrow> string \<Rightarrow> bool" where
  "match_prefix r [] = nullable r"
| "match_prefix r (c # s) = (nullable r \<or> match_prefix (deriv c r) s)"

fun MatchString :: "rx \<Rightarrow> string \<Rightarrow> bool" where
  "MatchString r [] = nullable r"
| "MatchString r (c # s) = (match_prefix r (c # s) \<or> MatchString r s)"

fun lit :: "string \<Rightarrow> rx" where
  "lit [] = Empty"
| "lit (c # s) = Seq (Cls [c]) (lit s)"

fun lit_ci :: "string \<Rightarrow> rx" where
  "lit_ci [] = Empty"
| "lit_ci (c # s) = Seq (Cls (remdups [c, lower_char c, upper_char c])) (lit_ci s)"

definition alts :: "rx list \<Rightarrow> rx" where
  "alts rs = foldr Alt rs Never"

definition opt :: "rx \<Rightarrow> rx" where
  "opt r = Alt r Empty"

fun rep :: "nat \<Rightarrow> rx \<Rightarrow> rx" where
  "rep 0 r = Empty"
| "rep (Suc n) r = Seq r (rep n r)"

definition at_least :: "nat \<Rightarrow> rx \<Rightarrow> rx" where
  "at_least n r = Seq (rep n r) (Star r)"

text \<open>The classes \<open>\s\<close>, \<open>\d\<close>, \<open>\w\<close> and \<open>.\<close> of Go's syntax.\<close>

definition rx_space :: rx where
  "rx_space = Cls [CHR 0x09, CHR 0x0A, CHR 0x0C, CHR 0x0D, CHR '' '']"

definition digit_chars :: "char list" where
  "digit_chars = ''0123456789''"

definition word_chars :: "char list" where
  "word_chars =
     ''0123456789ABCDEFGHIJKLMNOPQRSTUVWXYZ_abcdefghijklmnopqrstuvwxyz''"

definition rx_dot :: rx where
  "rx_dot = NotCls [CHR 0x0A]"

subsection \<open>Syntax trees (packages go/token and go/ast)\<close>

text \<open>
  The syntax tree is the one \<open>go/parser\<close> builds.  \<open>Pos\<close> is \<open>token.Pos\<close>, with
  \<open>NoPos = 0\<close>.  An identifier carries the object the parser resolved it to, or
  \<open>None\<close> for Go's nil pointer (an identifier that is not declared in the file, such
  as \<open>nil\<close>, a package name or a selector).  Of \<open>ast.Object\<close> the model keeps the name
  and the position its method \<open>Pos()\<close> reports.  The node types below are the ones the
  rules inspect and the ones needed to hold them; comment nodes, which no rule
  matches, are left out.
\<close>

type_synonym Pos = nat

datatype Token =
    T_INT | T_FLOAT | T_IMAG | T_CHAR | T_STRING
  | T_ADD | T_SUB | T_MUL | T_QUO | T_REM | T_AND | T_OR | T_XOR | T_SHL | T_SHR | T_AND_NOT
  | T_LAND | T_LOR | T_ARROW | T_INC | T_DEC | T_EQL | T_LSS | T_GTR | T_ASSIGN | T_NOT
  | T_NEQ | T_LEQ | T_GEQ | T_DEFINE | T_ADD_ASSIGN | T_SUB_ASSIGN
  | T_IMPORT | T_CONST | T_TYPE | T_VAR

datatype Object = Object (objName: string) (objPos: Pos)

record ident =
  NamePos :: Pos
  Name :: string
  Obj :: "Object option"

record basiclit =
  ValuePos :: Pos
  Kind :: Token
  Value :: string

datatype expr =
    Ident ident
  | BasicLit basiclit
  | FuncLit expr stmt
  | CompositeLit "expr option" Pos "expr list"
  | ParenExpr Pos expr
  | SelectorExpr expr ident
  | IndexExpr expr expr
  | CallExpr expr "expr list"
  | StarExpr Pos expr
  | UnaryExpr Pos Token expr
  | BinaryExpr expr Token expr
  | KeyValueExpr expr expr
  | ArrayType Pos "expr option" expr
  | StructType Pos fieldlist
  | FuncType Pos "fieldlist option" "fieldlist option"
  | MapType Pos expr expr
and stmt =
    DeclStmt decl
  | EmptyStmt Pos
  | ExprStmt expr
  | IncDecStmt expr Token
  | AssignStmt "expr list" Pos Token "expr list"
  | GoStmt Pos expr
  | DeferStmt Pos expr
  | ReturnStmt Pos "expr list"
  | BlockStmt Pos "stmt list"
  | IfStmt Pos "stmt option" expr stmt "stmt option"
  | ForStmt Pos "stmt option" "expr option" "stmt option" stmt
  | RangeStmt Pos "expr option" "expr option" expr stmt
and decl =
    GenDecl Pos Token "spec list"
  | FuncDecl "fieldlist option" ident expr "stmt option"
and spec =
    ImportSpec "ident option" "basiclit option"
  | ValueSpec "ident list" "expr option" "expr list"
  | TypeSpec ident expr
and field = Field_node "ident list" "expr option" "basiclit option"
and fieldlist = FieldList Pos "field list"

text \<open>\<open>File\<close>: the position of \<open>package\<close>, the package name, \<open>Decls\<close> and \<open>Imports\<close>.\<close>

datatype ast_file = File Pos ident "decl list" "spec list"

datatype node =
    NExpr expr | NStmt stmt | NDecl decl | NSpec spec | NField field | NFieldList fieldlist
  | NFile ast_file

definition opt_nodes :: "('a \<Rightarrow> node) \<Rightarrow> 'a option \<Rightarrow> node list" where
  "opt_nodes mk x = (case x of None \<Rightarrow> [] | Some y \<Rightarrow> [mk y])"

definition NIdent :: "ident \<Rightarrow> node" where
  "NIdent i = NExpr (Ident i)"

definition NLit :: "basiclit \<Rightarrow> node" where
  "NLit b = NExpr (BasicLit b)"

text \<open>
  The direct children of a node, in the order \<open>ast.Walk\<close> visits them.  This is what the
  repository's \<open>childNodes\<close> collects: it runs \<open>ast.Inspect\<close> on the node and refuses
  to descend below any node but the root.
\<close>

fun childNodes :: "node \<Rightarrow> node list" where
  "childNodes (NExpr (Ident i)) = []"
| "childNodes (NExpr (BasicLit b)) = []"
| "childNodes (NExpr (FuncLit t b)) = [NExpr t, NStmt b]"
| "childNodes (NExpr (CompositeLit t lb elts)) = opt_nodes NExpr t @ map NExpr elts"
| "childNodes (NExpr (ParenExpr p x)) = [NExpr x]"
| "childNodes (NExpr (SelectorExpr x sel)) = [NExpr x, NIdent sel]"
| "childNodes (NExpr (IndexExpr x i)) = [NExpr x, NExpr i]"
| "childNodes (NExpr (CallExpr f args)) = NExpr f # map NExpr args"
| "childNodes (NExpr (StarExpr p x)) = [NExpr x]"
| "childNodes (NExpr (UnaryExpr p op x)) = [NExpr x]"
| "childNodes (NExpr (BinaryExpr x op y)) = [NExpr x, NExpr y]"
| "childNodes (NExpr (KeyValueExpr k v)) = [NExpr k, NExpr v]"
| "childNodes (NExpr (ArrayType p len elt)) = opt_nodes NExpr len @ [NExpr elt]"
| "childNodes (NExpr (StructType p fl)) = [NFieldList fl]"
| "childNodes (NExpr (FuncType p params results)) =
     opt_nodes NFieldList params @ opt_nodes NFieldList results"
| "childNodes (NExpr (MapType p k v)) = [NExpr k, NExpr v]"
| "childNodes (NStmt (DeclStmt d)) = [NDecl d]"
| "childNodes (NStmt (EmptyStmt p)) = []"
| "childNodes (NStmt (ExprStmt x)) = [NExpr x]"
| "childNodes (NStmt (IncDecStmt x tok)) = [NExpr x]"
| "childNodes (NStmt (AssignStmt lhs p tok rhs)) = map NExpr lhs @ map NExpr rhs"
| "childNodes (NStmt (GoStmt p call)) = [NExpr call]"
| "childNodes (NStmt (DeferStmt p call)) = [NExpr call]"
| "childNodes (NStmt (ReturnStmt p results)) = map NExpr results"
| "childNodes (NStmt (BlockStmt p list)) = map NStmt list"
| "childNodes (NStmt (IfStmt p init cond body els)) =
     opt_nodes NStmt init @ [NExpr cond, NStmt body] @ opt_nodes NStmt els"
| "childNodes (NStmt (ForStmt p init cond post body)) =
     opt_nodes NStmt init @ opt_nodes NExpr cond @ opt_nodes NStmt post @ [NStmt body]"
| "childNodes (NStmt (RangeStmt p k v x body)) =
     opt_nodes NExpr k @ opt_nodes NExpr v @ [NExpr x, NStmt body]"
| "childNodes (NDecl (GenDecl p tok specs)) = map NSpec specs"
| "childNodes (NDecl (FuncDecl recv name typ body)) =
     opt_nodes NFieldList recv @ [NIdent name, NExpr typ] @ opt_nodes NStmt body"
| "childNodes (NSpec (ImportSpec name path)) = opt_nodes NIdent name @ opt_nodes NLit path"
| "childNodes (NSpec (ValueSpec names typ vals)) =
     map NIdent names @ opt_nodes NExpr typ @ map NExpr vals"
| "childNodes (NSpec (TypeSpec name typ)) = [NIdent name, NExpr typ]"
| "childNodes (NField (Field_node names typ tag)) =
     map NIdent names @ opt_nodes NExpr typ @ opt_nodes NLit tag"
| "childNodes (NFieldList (FieldList p list)) = map NField list"
| "childNodes (NFile (File p name decls imports)) = NIdent name # map NDecl decls"

fun node_size :: "node \<Rightarrow> nat" where
  "node_size (NExpr (Ident i)) = 0"
| "node_size (NExpr (BasicLit b)) = 0"
| "node_size (NExpr e) = 2 * size e + 1"
| "node_size (NStmt s) = 2 * size s + 1"
| "node_size (NDecl d) = 2 * size d + 1"
| "node_size (NSpec s) = 2 * size s + 1"
| "node_size (NField f) = 2 * size f + 1"
| "node_size (NFieldList f) = 2 * size f + 1"
| "node_size (NFile (File p n ds imports)) = 2 * size_list size ds + 3"

text \<open>
  \<open>ast.Inspect\<close> with a callback that always answers \<open>true\<close> calls it on every node of
  the tree in depth-first order (and on \<open>nil\<close> after each node's children, where
  the callbacks of the rules do nothing).  \<open>Inspect_nodes\<close> is that sequence of nodes.
\<close>

function Inspect_nodes :: "node \<Rightarrow> node list" where
  "Inspect_nodes n = n # concat (map Inspect_nodes (childNodes n))"
  by pat_completeness auto
termination
proof (relation "measure node_size")
  show "wf (measure node_size)" by simp
next
  fix n c
  assume c: "c \<in> set (childNodes n)"
  have le: "node_size (NExpr e) \<le> 2 * size e + 1" for e
    by (cases e) auto
  have mem: "x \<in> set xs \<Longrightarrow> size x < Suc (size_list size xs)" for x :: "'b::size" and xs
    by (induction xs) auto
  have "node_size c < node_size n"
    using c
    by (induction n rule: childNodes.induct)
      (auto simp: opt_nodes_def NIdent_def NLit_def le_imp_less_Suc split: option.splits
        dest!: mem intro!: order.strict_trans1[OF le])
  then show "(c, n) \<in> measure node_size" by simp
qed

declare Inspect_nodes.simps [simp del]

text \<open>
  \<open>getParent\<close> walks the file and stops at the first node that has the given node among
  its children.  Go compares node pointers; in a tree built by the parser two nodes
  of the same type are the same node exactly when they agree in position and content,
  so the model compares values.
\<close>

definition getParent :: "ast_file \<Rightarrow> node \<Rightarrow> node option" where
  "getParent f n = find (\<lambda>p. n \<in> set (childNodes p)) (Inspect_nodes (NFile f))"

text \<open>The method \<open>Pos()\<close> of the nodes.\<close>

fun expr_pos :: "expr \<Rightarrow> Pos"
  and fieldlist_pos :: "fieldlist \<Rightarrow> Pos"
  and field_pos :: "field \<Rightarrow> Pos" where
  "expr_pos (Ident i) = NamePos i"
| "expr_pos (BasicLit b) = ValuePos b"
| "expr_pos (FuncLit t b) = expr_pos t"
| "expr_pos (CompositeLit t lbrace elts) =
     (case t of Some ty \<Rightarrow> expr_pos ty | None \<Rightarrow> lbrace)"
| "expr_pos (ParenExpr lparen x) = lparen"
| "expr_pos (SelectorExpr x sel) = expr_pos x"
| "expr_pos (IndexExpr x i) = expr_pos x"
| "expr_pos (CallExpr f args) = expr_pos f"
| "expr_pos (StarExpr star x) = star"
| "expr_pos (UnaryExpr oppos op x) = oppos"
| "expr_pos (BinaryExpr x op y) = expr_pos x"
| "expr_pos (KeyValueExpr k v) = expr_pos k"
| "expr_pos (ArrayType lbrack len elt) = lbrack"
| "expr_pos (StructType p fl) = p"
| "expr_pos (FuncType func params results) =
     (case params of
        None \<Rightarrow> func
      | Some ps \<Rightarrow> if func \<noteq> 0 then func else fieldlist_pos ps)"
| "expr_pos (MapType p k v) = p"
| "fieldlist_pos (FieldList opening list) =
     (if opening \<noteq> 0 then opening
      else case list of [] \<Rightarrow> 0 | f # fs \<Rightarrow> field_pos f)"
| "field_pos (Field_node names typ tag) =
     (case names of
        n # ns \<Rightarrow> NamePos n
      | [] \<Rightarrow> (case typ of Some ty \<Rightarrow> expr_pos ty | None \<Rightarrow> 0))"

text \<open>
  \<open>Pos()\<close> of an assignment and of a value specification is the position of the first
  left-hand side and of the first name.  The parser never builds either with an empty
  list; for such a list the model answers \<open>NoPos\<close>.
\<close>

definition first_pos :: "expr list \<Rightarrow> Pos" where
  "first_pos xs = (case xs of [] \<Rightarrow> 0 | x # ys \<Rightarrow> expr_pos x)"

definition first_name_pos :: "ident list \<Rightarrow> Pos" where
  "first_name_pos xs = (case xs of [] \<Rightarrow> 0 | x # ys \<Rightarrow> NamePos x)"

text \<open>
  \<open>token.FileSet\<close> for the one file of an analysis: the offsets at which its lines
  start (the first one is 0), the file having base 1.  \<open>Position\<close> yields line and
  column, and the zero position for \<open>NoPos\<close>.  A \<open>//line\<close> directive in the source,
  which Go's \<open>Position\<close> honours, is not modelled: the files considered hold none.
\<close>

type_synonym FileSet = "nat list"

definition Position :: "FileSet \<Rightarrow> Pos \<Rightarrow> int \<times> int" where
  "Position lines p =
     (if p = 0 then (0, 0)
      else let starts = filter (\<lambda>l. l \<le> p - 1) lines
           in (int (length starts), int (p - 1 - last (0 # starts)) + 1))"

subsection \<open>internal/rules: Context, BaseRule\<close>

record Context =
  ctxFileSet :: FileSet
  ctxFile :: ast_file
  ctxConfig :: "Config option"
  ctxFilePath :: string
  ctxFileDir :: string
  ctxFileContent :: string
  ctxPackage :: string

record BaseRule =
  rule_id :: string
  rule_description :: string
  rule_severity :: Severity

definition NewIssue :: "BaseRule \<Rightarrow> Pos \<Rightarrow> Context \<Rightarrow> string \<Rightarrow> Issue" where
  "NewIssue r pos ctx message =
     (let position = Position (ctxFileSet ctx) pos
      in \<lparr> RuleID = rule_id r, Severity = rule_severity r, FilePath = ctxFilePath ctx,
           Line = fst position, Column = snd position, Message = message,
           Description = rule_description r \<rparr>)"

text \<open>
  A rule may panic; Go has no other way for \<open>Check\<close> to fail.  The only panic the rules
  can raise is the dereference of a nil pointer.
\<close>

datatype panic = NilPointerDereference

subsection \<open>The source texts of the scenario files\<close>

text \<open>A source text from its lines, each ended by a newline.\<close>

definition source_text :: "string list \<Rightarrow> string" where
  "source_text ls = concat (map (\<lambda>l. l @ [CHR 0x0A]) ls)"

text \<open>The text of the injection scenario.\<close>

definition sql_scenario_source :: string where
  \<open>sql_scenario_source =
     source_text
       [''package main'',
        [],
        ''func unsafeQuery(db *sql.DB, u string) {'',
        [CHR 0x09] @ ''query := "SELECT * FROM t WHERE u='' @ [CHR 0x27] @ ''" + u + "'' @ [CHR 0x27] @ ''"'',
        [CHR 0x09] @ ''db.Query(query)'',
        ''}'']\<close>

text \<open>The text of the error-check scenario.\<close>

definition errcheck_scenario_source :: string where
  \<open>errcheck_scenario_source =
     source_text
       [''package main'',
        [],
        ''func criticalOperationsWithoutCheck() {'',
        [CHR 0x09] @ ''f, _ := os.Create("test.txt")'',
        [CHR 0x09] @ ''f.Write([]byte("data"))'',
        [CHR 0x09] @ ''f.Close()'',
        ''}'']\<close>

text \<open>The text of the file with the reversed comparison.\<close>

definition reversed_check_source :: string where
  \<open>reversed_check_source =
     source_text
       [''package main'',
        [],
        ''func check(err error) {'',
        [CHR 0x09] @ ''if nil != err {'',
        [CHR 0x09] @ [CHR 0x09] @ ''return'',
        [CHR 0x09] @ ''}'',
        ''}'']\<close>

text \<open>The text of the secrets scenario.\<close>

definition secrets_scenario_source :: string where
  \<open>secrets_scenario_source =
     source_text
       [''package main'',
        [],
        ''type Config struct {'',
        [CHR 0x09] @ ''Secret string'',
        [CHR 0x09] @ ''APIKey string'',
        ''}'',
        [],
        ''func init() {'',
        [CHR 0x09] @ ''cfg := Config{'',
        [CHR 0x09] @ [CHR 0x09] @ ''Secret: "secretValue12345",'',
        [CHR 0x09] @ [CHR 0x09] @ ''APIKey: "abcdef1234567890",'',
        [CHR 0x09] @ ''}'',
        ''}'']\<close>

text \<open>The text of the server scenario.\<close>

definition server_scenario_source :: string where
  \<open>server_scenario_source =
     source_text
       [''package main'',
        [],
        ''func newServer() *http.Server {'',
        [CHR 0x09] @ ''return &http.Server{Addr: ":8080"}'',
        ''}'']\<close>


text \<open>The text of the bcrypt scenario, for the cost literal \<open>c\<close>.\<close>

definition bcrypt_scenario_source :: "string \<Rightarrow> string" where
  \<open>bcrypt_scenario_source c =
     source_text
       [''package main'',
        [],
        ''import "golang.org/x/crypto/bcrypt"'',
        [],
        ''func hash(pwd []byte) {'',
        [CHR 0x09] @ ''bcrypt.GenerateFromPassword(pwd, '' @ c @ '')'',
        ''}'']\<close>

text \<open>
  The line table \<open>go/token\<close> records while the file is scanned: offset 0 and the
  offset after every newline that is not the last byte of the file.
\<close>

fun line_starts :: "nat \<Rightarrow> string \<Rightarrow> nat list" where
  "line_starts off [] = []"
| "line_starts off (c # s) =
     (if c = CHR 0x0A \<and> s \<noteq> [] then [Suc off] else []) @ line_starts (Suc off) s"

definition line_table :: "string \<Rightarrow> FileSet" where
  "line_table content = 0 # line_starts 0 content"

text \<open>
  The messages and descriptions of the rules are Russian text in the source.  They are
  rendered here in English; where the source appends a name to a message the model
  appends the same name.
\<close>

subsection \<open>internal/rules: SQLInjectionRule\<close>

record SQLInjectionRule =
  sql_base :: BaseRule
  sqlQueryRegex :: rx

text \<open>\<open>(?i)(SELECT|INSERT|UPDATE|DELETE|DROP|CREATE|ALTER|TRUNCATE)\s+\<close>\<close>

definition NewSQLInjectionRule :: SQLInjectionRule where
  "NewSQLInjectionRule =
     \<lparr> sql_base = \<lparr> rule_id = ''SEC001'',
                      rule_description = ''Potential SQL injection detected'',
                      rule_severity = SeverityCritical \<rparr>,
       sqlQueryRegex =
         Seq (alts (map lit_ci [''SELECT'', ''INSERT'', ''UPDATE'', ''DELETE'', ''DROP'',
                                ''CREATE'', ''ALTER'', ''TRUNCATE'']))
             (at_least 1 rx_space) \<rparr>"

definition isVulnerableSQLMethod :: "string \<Rightarrow> bool" where
  "isVulnerableSQLMethod methodName =
     (methodName \<in> set [''Query'', ''QueryRow'', ''Exec'', ''Prepare'', ''QueryContext'',
                         ''QueryRowContext'', ''ExecContext'', ''PrepareContext''])"

text \<open>The two patterns \<open>%[dtv]\<close> and \<open>%[^dtv]\<close> compiled inside \<open>isRiskySQLQuery\<close>.\<close>

definition rx_safe_verb :: rx where
  "rx_safe_verb = Seq (Cls ''%'') (Cls ''dtv'')"

definition rx_other_verb :: rx where
  "rx_other_verb = Seq (Cls ''%'') (NotCls ''dtv'')"

text \<open>
  A \<open>case\<close> of Go's type switch that ends without \<open>return\<close> leaves the switch and
  reaches the final \<open>return false\<close>.
\<close>

fun isRiskySQLQuery :: "expr \<Rightarrow> rx \<Rightarrow> bool" where
  "isRiskySQLQuery (BasicLit b) sqlRegex = (if Kind b = T_STRING then False else False)"
| "isRiskySQLQuery (BinaryExpr x op y) sqlRegex = (if op = T_ADD then True else False)"
| "isRiskySQLQuery (Ident i) sqlRegex = True"
| "isRiskySQLQuery (CallExpr f args) sqlRegex =
     (case f of
        SelectorExpr x sel \<Rightarrow>
          if Name sel = ''Sprintf'' then
            (if length args > 0 then
               (case args ! 0 of
                  BasicLit strLit \<Rightarrow>
                    if Kind strLit = T_STRING then
                      (if \<not> Contains (Value strLit) ''%'' then False
                       else if MatchString rx_safe_verb (Value strLit) \<and>
                               \<not> MatchString rx_other_verb (Value strLit) then False
                       else True)
                    else True
                | _ \<Rightarrow> True)
             else True)
          else True
      | _ \<Rightarrow> True)"
| "isRiskySQLQuery e sqlRegex = False"

definition sql_call_message :: string where
  "sql_call_message = ''Possible SQL injection: use prepared statements with parameters''"

definition sql_concat_message :: string where
  "sql_concat_message = ''String concatenation in an SQL query can lead to SQL injection''"

text \<open>
  The callback of \<open>Check\<close> has two blocks, run one after the other on every node: the
  first one appends an issue for a risky call, the second one for an SQL literal that is
  an operand of \<open>+\<close>.
\<close>

definition sql_call_issues :: "SQLInjectionRule \<Rightarrow> Context \<Rightarrow> node \<Rightarrow> Issue list" where
  "sql_call_issues r ctx n =
     (case n of
        NExpr (CallExpr f args) \<Rightarrow>
          (case f of
             SelectorExpr x sel \<Rightarrow>
               if isVulnerableSQLMethod (Name sel) \<and> length args > 0 then
                 (if isRiskySQLQuery (args ! 0) (sqlQueryRegex r)
                  then [NewIssue (sql_base r) (expr_pos (CallExpr f args)) ctx sql_call_message]
                  else [])
               else []
           | _ \<Rightarrow> [])
      | _ \<Rightarrow> [])"

definition sql_literal_issues :: "SQLInjectionRule \<Rightarrow> Context \<Rightarrow> node \<Rightarrow> Issue list" where
  "sql_literal_issues r ctx n =
     (case n of
        NExpr (BasicLit l) \<Rightarrow>
          if Kind l = T_STRING then
            (if MatchString (sqlQueryRegex r) (Value l) then
               (case getParent (ctxFile ctx) (NExpr (BasicLit l)) of
                  Some parent \<Rightarrow>
                    (case parent of
                       NExpr (BinaryExpr x op y) \<Rightarrow>
                         if op = T_ADD
                         then [NewIssue (sql_base r) (ValuePos l) ctx sql_concat_message]
                         else []
                     | _ \<Rightarrow> [])
                | None \<Rightarrow> [])
             else [])
          else []
      | _ \<Rightarrow> [])"

definition SQLInjectionRule_Check :: "SQLInjectionRule \<Rightarrow> Context \<Rightarrow> Issue list" where
  "SQLInjectionRule_Check r ctx =
     fold (\<lambda>n issues. issues @ sql_call_issues r ctx n @ sql_literal_issues r ctx n)
       (Inspect_nodes (NFile (ctxFile ctx))) []"

text \<open>
  The risk predicate in the words of the specification: an identifier, a \<open>+\<close>
  concatenation, or a call that is not a \<open>Sprintf\<close> call whose string-literal template
  has no placeholder or only the placeholders \<open>%d\<close>, \<open>%t\<close>, \<open>%v\<close>.  The placeholders
  of a template are the characters that follow a \<open>%\<close>.
\<close>

fun placeholders :: "string \<Rightarrow> char list" where
  "placeholders [] = []"
| "placeholders [c] = []"
| "placeholders (c # d # s) =
     (if c = CHR ''%'' then d # placeholders (d # s) else placeholders (d # s))"

fun sprintf_template :: "expr \<Rightarrow> string option" where
  "sprintf_template (CallExpr (SelectorExpr x sel) (BasicLit b # args)) =
     (if Name sel = ''Sprintf'' \<and> Kind b = T_STRING then Some (Value b) else None)"
| "sprintf_template e = None"

definition safe_template :: "string \<Rightarrow> bool" where
  "safe_template t =
     (CHR ''%'' \<notin> set t \<or>
      placeholders t \<noteq> [] \<and> list_all (\<lambda>v. v \<in> set ''dtv'') (placeholders t))"

fun is_call :: "expr \<Rightarrow> bool" where
  "is_call (CallExpr f args) = True"
| "is_call e = False"

fun is_identifier :: "expr \<Rightarrow> bool" where
  "is_identifier (Ident i) = True"
| "is_identifier e = False"

fun is_concatenation :: "expr \<Rightarrow> bool" where
  "is_concatenation (BinaryExpr x op y) = (op = T_ADD)"
| "is_concatenation e = False"

definition risky_by_spec :: "expr \<Rightarrow> bool" where
  "risky_by_spec arg =
     (is_identifier arg \<or> is_concatenation arg \<or>
      is_call arg \<and>
        (case sprintf_template arg of Some t \<Rightarrow> \<not> safe_template t | None \<Rightarrow> True))"

text \<open>
  The scenario of the injection rule: the file
  \<^verbatim>\<open>package main

func unsafeQuery(db *sql.DB, u string) {
	query := "SELECT * FROM t WHERE u='" + u + "'"
	db.Query(query)
}\<close>
  as the parser builds it.  \<open>quoted\<close> puts a literal between double quotes, as
  \<open>BasicLit.Value\<close> holds it.
\<close>

definition quoted :: "string \<Rightarrow> string" where
  "quoted s = CHR 0x22 # s @ [CHR 0x22]"

definition mk_ident :: "Pos \<Rightarrow> string \<Rightarrow> Object option \<Rightarrow> ident" where
  "mk_ident p n ob = \<lparr> NamePos = p, Name = n, Obj = ob \<rparr>"

definition mk_lit :: "Pos \<Rightarrow> Token \<Rightarrow> string \<Rightarrow> basiclit" where
  "mk_lit p k v = \<lparr> ValuePos = p, Kind = k, Value = v \<rparr>"

definition sql_query_assign :: stmt where
  "sql_query_assign =
     AssignStmt [Ident (mk_ident 57 ''query'' (Some (Object ''query'' 57)))] 63 T_DEFINE
       [BinaryExpr
          (BinaryExpr
             (BasicLit (mk_lit 66 T_STRING (quoted (''SELECT * FROM t WHERE u='' @ [CHR 0x27]))))
             T_ADD
             (Ident (mk_ident 96 ''u'' (Some (Object ''u'' 44)))))
          T_ADD
          (BasicLit (mk_lit 100 T_STRING (quoted [CHR 0x27])))]"

definition sql_query_call :: expr where
  "sql_query_call =
     CallExpr (SelectorExpr (Ident (mk_ident 105 ''db'' (Some (Object ''db'' 32))))
                            (mk_ident 108 ''Query'' None))
              [Ident (mk_ident 114 ''query'' (Some (Object ''query'' 57)))]"

definition sql_scenario_file :: ast_file where
  "sql_scenario_file =
     File 1 (mk_ident 9 ''main'' None)
       [FuncDecl None (mk_ident 20 ''unsafeQuery'' (Some (Object ''unsafeQuery'' 20)))
          (FuncType 15
             (Some (FieldList 31
                [Field_node [mk_ident 32 ''db'' (Some (Object ''db'' 32))]
                   (Some (StarExpr 35 (SelectorExpr (Ident (mk_ident 36 ''sql'' None))
                                                     (mk_ident 40 ''DB'' None))))
                   None,
                 Field_node [mk_ident 44 ''u'' (Some (Object ''u'' 44))]
                   (Some (Ident (mk_ident 46 ''string'' None))) None]))
             None)
          (Some (BlockStmt 54 [sql_query_assign, ExprStmt sql_query_call]))]
       []"

definition sql_scenario_ctx :: Context where
  "sql_scenario_ctx =
     \<lparr> ctxFileSet = line_table sql_scenario_source, ctxFile = sql_scenario_file,
       ctxConfig = Some DefaultConfig, ctxFilePath = ''test.go'', ctxFileDir = ''.'',
       ctxFileContent = sql_scenario_source, ctxPackage = ''main'' \<rparr>"

subsection \<open>internal/rules: MissingErrorCheckRule\<close>

text \<open>\<open>criticalFunctions\<close> is a map whose entries are all \<open>true\<close>: a set of names.\<close>

record MissingErrorCheckRule =
  mec_base :: BaseRule
  criticalFunctions :: "string list"

definition NewMissingErrorCheckRule :: MissingErrorCheckRule where
  "NewMissingErrorCheckRule =
     \<lparr> mec_base = \<lparr> rule_id = ''SEC004'',
                      rule_description = ''Missing error check after a critical operation'',
                      rule_severity = SeverityMedium \<rparr>,
       criticalFunctions =
         [''Write'', ''WriteString'', ''Read'', ''ReadAll'', ''Close'', ''Exec'', ''Query'',
          ''QueryRow'', ''Open'', ''Create'', ''ReadFile'', ''WriteFile'', ''Unmarshal'',
          ''Marshal'', ''NewDecoder'', ''NewEncoder'', ''Decode'', ''Encode'', ''Scan'',
          ''New'', ''Listen'', ''ListenAndServe'', ''ListenAndServeTLS'', ''Dial'',
          ''DialTLS'', ''Connect'', ''Start'', ''Run'', ''Copy''] \<rparr>"

definition error_like_name :: "string \<Rightarrow> bool" where
  "error_like_name n = (HasSuffix n ''err'' \<or> n = ''e'' \<or> n = ''error'')"

text \<open>
  \<open>isErrorCheck\<close> on the fields \<open>X\<close>, \<open>Op\<close>, \<open>Y\<close> of the binary expression.  Each of
  its two blocks returns only when both operands are identifiers and the expected one
  is named \<open>nil\<close>; otherwise control falls through to what follows.
\<close>

definition nil_compare :: "expr \<Rightarrow> expr \<Rightarrow> bool option" where
  "nil_compare e n =
     (case e of
        Ident i \<Rightarrow>
          (case n of
             Ident nilExpr \<Rightarrow>
               if Name nilExpr = ''nil'' then Some (error_like_name (Name i)) else None
           | _ \<Rightarrow> None)
      | _ \<Rightarrow> None)"

definition isErrorCheck :: "expr \<Rightarrow> Token \<Rightarrow> expr \<Rightarrow> bool" where
  "isErrorCheck x op y =
     (if op = T_NEQ \<or> op = T_EQL then
        (case nil_compare x y of
           Some b \<Rightarrow> b
         | None \<Rightarrow> (case nil_compare y x of Some b \<Rightarrow> b | None \<Rightarrow> False))
      else False)"

definition isLoggingFunction :: "expr \<Rightarrow> ident \<Rightarrow> bool" where
  "isLoggingFunction x sel =
     (case x of
        Ident pkg \<Rightarrow>
          (let pkgName = Name pkg; funcName = Name sel in
           if pkgName = ''log'' \<and>
              funcName \<in> set [''Fatal'', ''Fatalf'', ''Print'', ''Printf'', ''Panic'', ''Panicf'']
           then True
           else if pkgName = ''fmt'' \<and>
              funcName \<in> set [''Print'', ''Printf'', ''Println'', ''Sprint'', ''Sprintf'',
                               ''Sprintln'']
           then True
           else if pkgName \<in> set [''logger'', ''logging'', ''logrus'', ''zap'', ''zerolog''] \<and>
              funcName \<in> set [''Error'', ''Errorf'', ''Warn'', ''Warnf'', ''Info'', ''Infof'',
                               ''Debug'', ''Debugf'']
           then True
           else False)
      | _ \<Rightarrow> False)"

text \<open>
  \<open>checkedErrors\<close> is a \<open>map[token.Pos]bool\<close>; an absent key reads \<open>false\<close>.
  \<open>Obj.Pos()\<close> on a nil \<open>Obj\<close> dereferences a nil pointer.
\<close>

type_synonym checked = "Pos \<Rightarrow> bool"

definition Obj_Pos :: "ident \<Rightarrow> panic + Pos" where
  "Obj_Pos i = (case Obj i of None \<Rightarrow> Inl NilPointerDereference | Some ob \<Rightarrow> Inr (objPos ob))"

text \<open>The loops over call arguments and return values: they test \<open>ident.Obj != nil\<close>.\<close>

fun mark_idents :: "expr list \<Rightarrow> checked \<Rightarrow> checked" where
  "mark_idents [] ce = ce"
| "mark_idents (e # es) ce =
     mark_idents es
       (case e of
          Ident i \<Rightarrow> (case Obj i of Some ob \<Rightarrow> ce(objPos ob := True) | None \<Rightarrow> ce)
        | _ \<Rightarrow> ce)"

text \<open>The callback of the first pass: comparisons, logging calls, return statements.\<close>

definition mark_comparison :: "node \<Rightarrow> checked \<Rightarrow> panic + checked" where
  "mark_comparison n ce =
     (case n of
        NExpr (BinaryExpr x op y) \<Rightarrow>
          if isErrorCheck x op y then
            (case x of
               Ident i \<Rightarrow>
                 (case Obj_Pos i of Inl p \<Rightarrow> Inl p | Inr pos \<Rightarrow> Inr (ce(pos := True)))
             | _ \<Rightarrow> Inr ce)
          else Inr ce
      | _ \<Rightarrow> Inr ce)"

definition mark_logging :: "node \<Rightarrow> checked \<Rightarrow> checked" where
  "mark_logging n ce =
     (case n of
        NExpr (CallExpr f args) \<Rightarrow>
          (case f of
             SelectorExpr x sel \<Rightarrow> if isLoggingFunction x sel then mark_idents args ce else ce
           | _ \<Rightarrow> ce)
      | _ \<Rightarrow> ce)"

definition mark_return :: "node \<Rightarrow> checked \<Rightarrow> checked" where
  "mark_return n ce =
     (case n of NStmt (ReturnStmt p results) \<Rightarrow> mark_idents results ce | _ \<Rightarrow> ce)"

definition mark_checked :: "node \<Rightarrow> checked \<Rightarrow> panic + checked" where
  "mark_checked n ce =
     (case mark_comparison n ce of
        Inl p \<Rightarrow> Inl p
      | Inr ce1 \<Rightarrow> Inr (mark_return n (mark_logging n ce1)))"

text \<open>A traversal whose callback may panic stops at the first panic.\<close>

fun inspect_panic :: "(node \<Rightarrow> 's \<Rightarrow> panic + 's) \<Rightarrow> node list \<Rightarrow> 's \<Rightarrow> panic + 's" where
  "inspect_panic f [] s = Inr s"
| "inspect_panic f (n # ns) s =
     (case f n s of Inl p \<Rightarrow> Inl p | Inr s' \<Rightarrow> inspect_panic f ns s')"

definition unchecked_call_message :: "string \<Rightarrow> string" where
  "unchecked_call_message name =
     ''Missing error check after the call of critical function '' @ name"

definition ignored_call_message :: "string \<Rightarrow> string" where
  "ignored_call_message name =
     ''The result of the call of critical function '' @ name @ '' is ignored''"

definition unchecked_err :: "checked \<Rightarrow> expr \<Rightarrow> bool" where
  "unchecked_err ce e =
     (case e of
        Ident i \<Rightarrow>
          (case Obj i of
             Some ob \<Rightarrow> Name i = ''err'' \<and> \<not> ce (objPos ob)
           | None \<Rightarrow> False)
      | _ \<Rightarrow> False)"

text \<open>The callback of the second pass, on an assignment.\<close>

definition assign_issues ::
  "MissingErrorCheckRule \<Rightarrow> Context \<Rightarrow> checked \<Rightarrow> expr list \<Rightarrow> Token \<Rightarrow> expr list \<Rightarrow> Issue list"
where
  "assign_issues r ctx ce lhs tok rhs =
     (if tok = T_DEFINE \<or> tok = T_ASSIGN then
        (if length rhs = 1 then
           (case rhs ! 0 of
              CallExpr f args \<Rightarrow>
                if length lhs \<ge> 2 then
                  (if unchecked_err ce (lhs ! (length lhs - 1)) then
                     (case f of
                        SelectorExpr x sel \<Rightarrow>
                          if Name sel \<in> set (criticalFunctions r)
                          then [NewIssue (mec_base r) (first_pos lhs) ctx
                                  (unchecked_call_message (Name sel))]
                          else []
                      | _ \<Rightarrow> [])
                   else [])
                else []
            | _ \<Rightarrow> [])
         else
           concat (map (\<lambda>e.
               case e of
                 CallExpr f args \<Rightarrow>
                   (case f of
                      SelectorExpr x sel \<Rightarrow>
                        if Name sel \<in> set (criticalFunctions r) then
                          concat (map (\<lambda>l.
                              if unchecked_err ce l
                              then [NewIssue (mec_base r) (first_pos lhs) ctx
                                      (unchecked_call_message (Name sel))]
                              else [])
                            (take (length rhs) lhs))
                        else []
                    | _ \<Rightarrow> [])
               | _ \<Rightarrow> [])
             (take (length lhs) rhs)))
      else [])"

definition unchecked_issues ::
  "MissingErrorCheckRule \<Rightarrow> Context \<Rightarrow> checked \<Rightarrow> node \<Rightarrow> Issue list" where
  "unchecked_issues r ctx ce n =
     (case n of
        NStmt (AssignStmt lhs p tok rhs) \<Rightarrow> assign_issues r ctx ce lhs tok rhs
      | NStmt (ExprStmt x) \<Rightarrow>
          (case x of
             CallExpr f args \<Rightarrow>
               (case f of
                  SelectorExpr y sel \<Rightarrow>
                    if Name sel \<in> set (criticalFunctions r)
                    then [NewIssue (mec_base r) (expr_pos x) ctx
                            (ignored_call_message (Name sel))]
                    else []
                | _ \<Rightarrow> [])
           | _ \<Rightarrow> [])
      | _ \<Rightarrow> [])"

definition MissingErrorCheckRule_Check ::
  "MissingErrorCheckRule \<Rightarrow> Context \<Rightarrow> panic + Issue list" where
  "MissingErrorCheckRule_Check r ctx =
     (case inspect_panic mark_checked (Inspect_nodes (NFile (ctxFile ctx))) (\<lambda>p. False) of
        Inl p \<Rightarrow> Inl p
      | Inr checkedErrors \<Rightarrow>
          Inr (fold (\<lambda>n issues. issues @ unchecked_issues r ctx checkedErrors n)
                 (Inspect_nodes (NFile (ctxFile ctx))) []))"

text \<open>
  The scenario of the rule: the file
  \<^verbatim>\<open>package main

func criticalOperationsWithoutCheck() {
	f, _ := os.Create("test.txt")
	f.Write([]byte("data"))
	f.Close()
}\<close>
\<close>

definition create_assign :: stmt where
  "create_assign =
     AssignStmt [Ident (mk_ident 56 ''f'' (Some (Object ''f'' 56))),
                 Ident (mk_ident 59 ''_'' (Some (Object ''_'' 59)))] 61 T_DEFINE
       [CallExpr (SelectorExpr (Ident (mk_ident 64 ''os'' None)) (mk_ident 67 ''Create'' None))
          [BasicLit (mk_lit 74 T_STRING (quoted ''test.txt''))]]"

definition write_stmt :: stmt where
  "write_stmt =
     ExprStmt
       (CallExpr (SelectorExpr (Ident (mk_ident 87 ''f'' (Some (Object ''f'' 56))))
                               (mk_ident 89 ''Write'' None))
          [CallExpr (ArrayType 95 None (Ident (mk_ident 97 ''byte'' None)))
             [BasicLit (mk_lit 102 T_STRING (quoted ''data''))]])"

definition close_stmt :: stmt where
  "close_stmt =
     ExprStmt
       (CallExpr (SelectorExpr (Ident (mk_ident 112 ''f'' (Some (Object ''f'' 56))))
                               (mk_ident 114 ''Close'' None)) [])"

definition errcheck_scenario_file :: ast_file where
  "errcheck_scenario_file =
     File 1 (mk_ident 9 ''main'' None)
       [FuncDecl None
          (mk_ident 20 ''criticalOperationsWithoutCheck''
             (Some (Object ''criticalOperationsWithoutCheck'' 20)))
          (FuncType 15 (Some (FieldList 50 [])) None)
          (Some (BlockStmt 53 [create_assign, write_stmt, close_stmt]))]
       []"

definition errcheck_scenario_ctx :: Context where
  "errcheck_scenario_ctx =
     \<lparr> ctxFileSet = line_table errcheck_scenario_source, ctxFile = errcheck_scenario_file,
       ctxConfig = Some DefaultConfig, ctxFilePath = ''test.go'', ctxFileDir = ''.'',
       ctxFileContent = errcheck_scenario_source, ctxPackage = ''main'' \<rparr>"

text \<open>
  A comparison with the operands in reversed order: the file
  \<^verbatim>\<open>package main

func check(err error) {
	if nil != err {
		return
	}
}\<close>
  The identifier \<open>nil\<close> is not declared in the file, so the parser leaves its \<open>Obj\<close>
  nil.
\<close>

definition reversed_check_file :: ast_file where
  "reversed_check_file =
     File 1 (mk_ident 9 ''main'' None)
       [FuncDecl None (mk_ident 20 ''check'' (Some (Object ''check'' 20)))
          (FuncType 15
             (Some (FieldList 25
                [Field_node [mk_ident 26 ''err'' (Some (Object ''err'' 26))]
                   (Some (Ident (mk_ident 30 ''error'' None))) None]))
             None)
          (Some (BlockStmt 37
             [IfStmt 40 None
                (BinaryExpr (Ident (mk_ident 43 ''nil'' None)) T_NEQ
                            (Ident (mk_ident 50 ''err'' (Some (Object ''err'' 26)))))
                (BlockStmt 54 [ReturnStmt 58 []])
                None]))]
       []"

definition reversed_check_ctx :: Context where
  "reversed_check_ctx =
     \<lparr> ctxFileSet = line_table reversed_check_source, ctxFile = reversed_check_file,
       ctxConfig = Some DefaultConfig, ctxFilePath = ''check.go'', ctxFileDir = ''.'',
       ctxFileContent = reversed_check_source, ctxPackage = ''main'' \<rparr>"

text \<open>The same function with the comparison written \<open>err != nil\<close>.\<close>

definition forward_check_file :: ast_file where
  "forward_check_file =
     File 1 (mk_ident 9 ''main'' None)
       [FuncDecl None (mk_ident 20 ''check'' (Some (Object ''check'' 20)))
          (FuncType 15
             (Some (FieldList 25
                [Field_node [mk_ident 26 ''err'' (Some (Object ''err'' 26))]
                   (Some (Ident (mk_ident 30 ''error'' None))) None]))
             None)
          (Some (BlockStmt 37
             [IfStmt 40 None
                (BinaryExpr (Ident (mk_ident 43 ''err'' (Some (Object ''err'' 26)))) T_NEQ
                            (Ident (mk_ident 50 ''nil'' None)))
                (BlockStmt 54 [ReturnStmt 58 []])
                None]))]
       []"

subsection \<open>internal/rules: HardcodedSecretsRule\<close>

definition seqs :: "rx list \<Rightarrow> rx" where
  "seqs rs = foldr Seq rs Empty"

definition rx_quote :: rx where
  "rx_quote = Cls [CHR 0x27, CHR 0x22]"

definition rx_not_quote :: rx where
  "rx_not_quote = NotCls [CHR 0x27, CHR 0x22]"

text \<open>The common tail \<open>[\s]*=[\s]*['"]BODY{n,}['"]\<close> of the four patterns.\<close>

definition assigned_literal :: "rx \<Rightarrow> nat \<Rightarrow> rx \<Rightarrow> rx" where
  "assigned_literal names n body =
     seqs [names, Star rx_space, Cls ''='', Star rx_space, rx_quote, at_least n body, rx_quote]"

record HardcodedSecretsRule =
  hs_base :: BaseRule
  apiKeyRegex :: rx
  passwordRegex :: rx
  tokenRegex :: rx
  credentialRegex :: rx
  sensitiveNames :: "string list"

text \<open>
  \<open>(?i)(api_?key|app_?key|token|secret|jwt|authorization)[\s]*=[\s]*['"][\w\d\+\/=]{8,}['"]\<close>,
  \<open>(?i)(password|passwd|pass|pwd)[\s]*=[\s]*['"][^'"]{3,}['"]\<close>,
  \<open>(?i)(auth.?token|oauth|bearer|jwt)[\s]*=[\s]*['"][^'"]{8,}['"]\<close> and
  \<open>(?i)(credential|auth)[\s]*=[\s]*['"][^'"]{8,}['"]\<close>.
\<close>

definition NewHardcodedSecretsRule :: HardcodedSecretsRule where
  "NewHardcodedSecretsRule =
     \<lparr> hs_base = \<lparr> rule_id = ''SEC002'',
                     rule_description = ''Hardcoded secret or password detected'',
                     rule_severity = SeverityHigh \<rparr>,
       apiKeyRegex =
         assigned_literal
           (alts [seqs [lit_ci ''api'', opt (Cls ''_''), lit_ci ''key''],
                  seqs [lit_ci ''app'', opt (Cls ''_''), lit_ci ''key''],
                  lit_ci ''token'', lit_ci ''secret'', lit_ci ''jwt'',
                  lit_ci ''authorization''])
           8 (Cls (word_chars @ digit_chars @ ''+/='')),
       passwordRegex =
         assigned_literal
           (alts [lit_ci ''password'', lit_ci ''passwd'', lit_ci ''pass'', lit_ci ''pwd''])
           3 rx_not_quote,
       tokenRegex =
         assigned_literal
           (alts [seqs [lit_ci ''auth'', opt rx_dot, lit_ci ''token''],
                  lit_ci ''oauth'', lit_ci ''bearer'', lit_ci ''jwt''])
           8 rx_not_quote,
       credentialRegex =
         assigned_literal (alts [lit_ci ''credential'', lit_ci ''auth'']) 8 rx_not_quote,
       sensitiveNames =
         [''password'', ''passwd'', ''pass'', ''pwd'', ''apikey'', ''api_key'', ''secret'',
          ''secretkey'', ''secret_key'', ''token'', ''accesstoken'', ''access_token'',
          ''auth'', ''authentication'', ''credential'', ''jwt'', ''private'', ''privatekey'',
          ''private_key''] \<rparr>"

text \<open>
  \<open>isSensitiveName\<close> first looks the lower-cased name up and then ranges over the map
  for a term the name contains; the order of the range does not affect the answer.
\<close>

definition isSensitiveName :: "HardcodedSecretsRule \<Rightarrow> string \<Rightarrow> bool" where
  "isSensitiveName r name =
     (let lowerName = ToLower name in
      if lowerName \<in> set (sensitiveNames r) then True
      else list_ex (\<lambda>sensitive. Contains lowerName sensitive) (sensitiveNames r))"

definition is_letter :: "char \<Rightarrow> bool" where
  "is_letter c = ((c \<ge> CHR ''a'' \<and> c \<le> CHR ''z'') \<or> (c \<ge> CHR ''A'' \<and> c \<le> CHR ''Z''))"

definition is_digit :: "char \<Rightarrow> bool" where
  "is_digit c = (c \<ge> CHR ''0'' \<and> c \<le> CHR ''9'')"

text \<open>
  The loop of \<open>containsAlphaAndNumeric\<close> with its two flags.  Go ranges over runes; a
  rune outside ASCII is neither a letter nor a digit here, and neither is any of its
  bytes.
\<close>

fun scan_alpha_numeric :: "string \<Rightarrow> bool \<Rightarrow> bool \<Rightarrow> bool" where
  "scan_alpha_numeric [] hasAlpha hasNumeric = False"
| "scan_alpha_numeric (c # s) hasAlpha hasNumeric =
     (let hasAlpha' = (if is_letter c then True else hasAlpha);
          hasNumeric' = (if is_digit c then True else hasNumeric)
      in if hasAlpha' \<and> hasNumeric' then True else scan_alpha_numeric s hasAlpha' hasNumeric')"

definition containsAlphaAndNumeric :: "string \<Rightarrow> bool" where
  "containsAlphaAndNumeric s = scan_alpha_numeric s False False"

definition isLikelySecret :: "string \<Rightarrow> bool" where
  "isLikelySecret v =
     (let val = Trim v [CHR 0x22, CHR 0x27] in
      if length val < 3 then False
      else if val = ''password'' \<or> val = ''123456'' \<or> val = ''test'' \<or> val = ''example''
        then False
      else if Contains val ''${'' \<or> Contains val ''$('' \<or> HasPrefix val ''{{'' then False
      else if HasPrefix val ''http://'' \<or> HasPrefix val ''https://'' \<or> HasPrefix val ''/''
        then False
      else if length val \<ge> 8 \<and> containsAlphaAndNumeric val then True
      else False)"

definition containsSecretPattern :: "HardcodedSecretsRule \<Rightarrow> string \<Rightarrow> bool" where
  "containsSecretPattern r v =
     (MatchString (apiKeyRegex r) v \<or> MatchString (passwordRegex r) v \<or>
      MatchString (tokenRegex r) v \<or> MatchString (credentialRegex r) v)"

definition secret_variable_message :: "string \<Rightarrow> string" where
  "secret_variable_message name = ''Potential hardcoded secret in variable '' @ name"

definition secret_assignment_message :: "string \<Rightarrow> string" where
  "secret_assignment_message name = ''Potential hardcoded secret in assignment '' @ name"

definition secret_field_message :: "string \<Rightarrow> string" where
  "secret_field_message name = ''Potential hardcoded secret in struct field or map '' @ name"

definition secret_literal_message :: string where
  "secret_literal_message = ''Potential hardcoded secret in string literal''"

definition secret_literal :: "expr \<Rightarrow> bool" where
  "secret_literal e =
     (case e of BasicLit v \<Rightarrow> Kind v = T_STRING \<and> isLikelySecret (Value v) | _ \<Rightarrow> False)"

text \<open>
  The callback of \<open>Check\<close>.  The loops over \<open>Names\<close> and \<open>Lhs\<close> skip an index that has
  no value on the other side; \<open>zip\<close> pairs exactly the indices that have one.
\<close>

definition secret_issues :: "HardcodedSecretsRule \<Rightarrow> Context \<Rightarrow> node \<Rightarrow> Issue list" where
  "secret_issues r ctx n =
     (case n of
        NSpec (ValueSpec names typ vals) \<Rightarrow>
          concat (map (\<lambda>(name, v).
              if isSensitiveName r (Name name) \<and> secret_literal v
              then [NewIssue (hs_base r) (first_name_pos names) ctx
                      (secret_variable_message (Name name))]
              else [])
            (zip names vals))
      | NStmt (AssignStmt lhs p tok rhs) \<Rightarrow>
          concat (map (\<lambda>(l, v).
              case l of
                Ident i \<Rightarrow>
                  if isSensitiveName r (Name i) \<and> secret_literal v
                  then [NewIssue (hs_base r) (first_pos lhs) ctx
                          (secret_assignment_message (Name i))]
                  else []
              | _ \<Rightarrow> [])
            (zip lhs rhs))
      | NExpr (KeyValueExpr k v) \<Rightarrow>
          (case k of
             Ident key \<Rightarrow>
               if isSensitiveName r (Name key) \<and> secret_literal v
               then [NewIssue (hs_base r) (expr_pos k) ctx (secret_field_message (Name key))]
               else []
           | _ \<Rightarrow> [])
      | NExpr (BasicLit l) \<Rightarrow>
          if Kind l = T_STRING \<and> containsSecretPattern r (Value l)
          then [NewIssue (hs_base r) (ValuePos l) ctx secret_literal_message]
          else []
      | _ \<Rightarrow> [])"

definition HardcodedSecretsRule_Check :: "HardcodedSecretsRule \<Rightarrow> Context \<Rightarrow> Issue list" where
  "HardcodedSecretsRule_Check r ctx =
     fold (\<lambda>n issues. issues @ secret_issues r ctx n) (Inspect_nodes (NFile (ctxFile ctx))) []"

text \<open>
  The scenario of the rule: the file
  \<^verbatim>\<open>package main

type Config struct {
	Secret string
	APIKey string
}

func init() {
	cfg := Config{
		Secret: "secretValue12345",
		APIKey: "abcdef1234567890",
	}
}\<close>
\<close>

definition secret_field :: expr where
  "secret_field =
     KeyValueExpr (Ident (mk_ident 101 ''Secret'' None))
                  (BasicLit (mk_lit 109 T_STRING (quoted ''secretValue12345'')))"

definition apikey_field :: expr where
  "apikey_field =
     KeyValueExpr (Ident (mk_ident 131 ''APIKey'' None))
                  (BasicLit (mk_lit 139 T_STRING (quoted ''abcdef1234567890'')))"

definition secrets_scenario_file :: ast_file where
  "secrets_scenario_file =
     File 1 (mk_ident 9 ''main'' None)
       [GenDecl 15 T_TYPE
          [TypeSpec (mk_ident 20 ''Config'' (Some (Object ''Config'' 20)))
             (StructType 27 (FieldList 34
                [Field_node [mk_ident 37 ''Secret'' (Some (Object ''Secret'' 37))]
                   (Some (Ident (mk_ident 44 ''string'' None))) None,
                 Field_node [mk_ident 52 ''APIKey'' (Some (Object ''APIKey'' 52))]
                   (Some (Ident (mk_ident 59 ''string'' None))) None]))],
        FuncDecl None (mk_ident 74 ''init'' None)
          (FuncType 69 (Some (FieldList 78 [])) None)
          (Some (BlockStmt 81
             [AssignStmt [Ident (mk_ident 84 ''cfg'' (Some (Object ''cfg'' 84)))] 88 T_DEFINE
                [CompositeLit (Some (Ident (mk_ident 91 ''Config'' (Some (Object ''Config'' 20)))))
                   97 [secret_field, apikey_field]]]))]
       []"

definition secrets_scenario_ctx :: Context where
  "secrets_scenario_ctx =
     \<lparr> ctxFileSet = line_table secrets_scenario_source,
       ctxFile = secrets_scenario_file, ctxConfig = Some DefaultConfig,
       ctxFilePath = ''test.go'', ctxFileDir = ''.'',
       ctxFileContent = secrets_scenario_source, ctxPackage = ''main'' \<rparr>"

subsection \<open>internal/rules: InsecureHTTPRule\<close>

record InsecureHTTPRule =
  http_base :: BaseRule

definition NewInsecureHTTPRule :: InsecureHTTPRule where
  "NewInsecureHTTPRule =
     \<lparr> http_base = \<lparr> rule_id = ''SEC003'',
                       rule_description = ''Insecure HTTP server settings detected'',
                       rule_severity = SeverityHigh \<rparr> \<rparr>"

text \<open>
  The three tests \<open>isTLSConfigLiteral\<close>, \<open>isHTTPTransportLiteral\<close> and
  \<open>isHTTPServerLiteral\<close> look at the type of the composite literal.
\<close>

definition qualified_type :: "expr option \<Rightarrow> string \<Rightarrow> string \<Rightarrow> bool" where
  "qualified_type t pkg name =
     (case t of
        Some (SelectorExpr x sel) \<Rightarrow>
          (case x of Ident i \<Rightarrow> Name i = pkg \<and> Name sel = name | _ \<Rightarrow> False)
      | _ \<Rightarrow> False)"

definition isTLSConfigLiteral :: "expr option \<Rightarrow> bool" where
  "isTLSConfigLiteral t = qualified_type t ''tls'' ''Config''"

definition isHTTPTransportLiteral :: "expr option \<Rightarrow> bool" where
  "isHTTPTransportLiteral t = qualified_type t ''http'' ''Transport''"

definition isHTTPServerLiteral :: "expr option \<Rightarrow> bool" where
  "isHTTPServerLiteral t = qualified_type t ''http'' ''Server''"

definition isInsecureHTTPFunction :: "expr \<Rightarrow> ident \<Rightarrow> bool" where
  "isInsecureHTTPFunction x sel =
     (case x of
        Ident i \<Rightarrow> if Name i = ''http'' then Name sel \<in> set [''ListenAndServe''] else False
      | _ \<Rightarrow> False)"

definition isHTTPURLInCode :: "expr list \<Rightarrow> bool" where
  "isHTTPURLInCode args =
     list_ex (\<lambda>arg.
        case arg of
          BasicLit l \<Rightarrow>
            Kind l = T_STRING \<and>
            (let v = Trim (Value l) [CHR 0x22, CHR 0x27] in
             HasPrefix v ''http://'' \<and> \<not> Contains v ''localhost'' \<and>
             \<not> MatchString (lit ''http://127.0.0.1'') v \<and>
             \<not> MatchString (lit ''http://0.0.0.0'') v)
        | _ \<Rightarrow> False) args"

definition skip_verify_message :: string where
  "skip_verify_message =
     ''InsecureSkipVerify=true disables TLS certificate verification, which is dangerous''"

definition tls_version_message :: "string \<Rightarrow> string" where
  "tls_version_message name = ''Use of a deprecated and insecure TLS version: '' @ name"

definition disabling_message :: "string \<Rightarrow> string" where
  "disabling_message name =
     ''Disabling '' @ name @ '' can lead to security or performance problems''"

definition missing_timeout_message :: "string \<Rightarrow> string" where
  "missing_timeout_message name =
     ''Missing important timeout '' @ name @
     '' for http.Server, which can make the server vulnerable to DoS attacks''"

definition no_tls_message :: string where
  "no_tls_message =
     ''The HTTP server is not configured to use TLS (HTTPS), which is unsafe in production''"

definition insecure_function_message :: "string \<Rightarrow> string" where
  "insecure_function_message name = ''Use of insecure HTTP function '' @ name"

definition http_url_message :: string where
  "http_url_message = ''Use of HTTP instead of HTTPS, which is not recommended for security''"

definition named_true :: "expr \<Rightarrow> bool" where
  "named_true e = (case e of Ident i \<Rightarrow> Name i = ''true'' | _ \<Rightarrow> False)"

definition tls_elt_issues :: "InsecureHTTPRule \<Rightarrow> Context \<Rightarrow> expr \<Rightarrow> Issue list" where
  "tls_elt_issues r ctx elt =
     (case elt of
        KeyValueExpr k v \<Rightarrow>
          (case k of
             Ident key \<Rightarrow>
               if Name key = ''InsecureSkipVerify'' then
                 (if named_true v
                  then [NewIssue (http_base r) (expr_pos k) ctx skip_verify_message] else [])
               else if Name key = ''MinVersion'' then
                 (case v of
                    SelectorExpr x sel \<Rightarrow>
                      (case x of
                         Ident i \<Rightarrow>
                           if Name i = ''tls'' \<and>
                              (Name sel = ''VersionSSL30'' \<or> Name sel = ''VersionTLS10'' \<or>
                               Name sel = ''VersionTLS11'')
                           then [NewIssue (http_base r) (expr_pos k) ctx
                                   (tls_version_message (Name sel))]
                           else []
                       | _ \<Rightarrow> [])
                  | _ \<Rightarrow> [])
               else []
           | _ \<Rightarrow> [])
      | _ \<Rightarrow> [])"

definition checkTLSConfig :: "InsecureHTTPRule \<Rightarrow> Context \<Rightarrow> expr list \<Rightarrow> Issue list" where
  "checkTLSConfig r ctx elts = concat (map (tls_elt_issues r ctx) elts)"

definition nested_tls_issues :: "InsecureHTTPRule \<Rightarrow> Context \<Rightarrow> expr \<Rightarrow> Issue list" where
  "nested_tls_issues r ctx v =
     (case v of CompositeLit t lb elts \<Rightarrow> checkTLSConfig r ctx elts | _ \<Rightarrow> [])"

definition transport_elt_issues :: "InsecureHTTPRule \<Rightarrow> Context \<Rightarrow> expr \<Rightarrow> Issue list" where
  "transport_elt_issues r ctx elt =
     (case elt of
        KeyValueExpr k v \<Rightarrow>
          (case k of
             Ident key \<Rightarrow>
               if Name key = ''TLSClientConfig'' then nested_tls_issues r ctx v
               else if Name key = ''DisableKeepAlives'' \<or> Name key = ''DisableCompression'' then
                 (if named_true v
                  then [NewIssue (http_base r) (expr_pos k) ctx (disabling_message (Name key))]
                  else [])
               else []
           | _ \<Rightarrow> [])
      | _ \<Rightarrow> [])"

definition checkHTTPTransport :: "InsecureHTTPRule \<Rightarrow> Context \<Rightarrow> expr list \<Rightarrow> Issue list" where
  "checkHTTPTransport r ctx elts = concat (map (transport_elt_issues r ctx) elts)"

text \<open>
  The inner loops of \<open>checkHTTPServer\<close>: is there an element of the literal whose key
  is an identifier with the given name?
\<close>

definition has_key :: "expr list \<Rightarrow> string \<Rightarrow> bool" where
  "has_key elts name =
     list_ex (\<lambda>elt.
        case elt of
          KeyValueExpr k v \<Rightarrow> (case k of Ident key \<Rightarrow> Name key = name | _ \<Rightarrow> False)
        | _ \<Rightarrow> False) elts"

definition is_BasicLit :: "expr \<Rightarrow> bool" where
  "is_BasicLit e = (case e of BasicLit l \<Rightarrow> True | _ \<Rightarrow> False)"

text \<open>
  One round of the first loop of \<open>checkHTTPServer\<close>, on the element \<open>elt\<close> of the
  literal at \<open>lit_pos\<close> with elements \<open>elts\<close>.  For a timeout key whose value is not a
  literal, \<open>hasMissingTimeout\<close> starts \<open>true\<close> and is reset when the elements hold a
  key of that name.
\<close>

definition server_elt_issues ::
  "InsecureHTTPRule \<Rightarrow> Context \<Rightarrow> Pos \<Rightarrow> expr list \<Rightarrow> expr \<Rightarrow> Issue list" where
  "server_elt_issues r ctx lit_pos elts elt =
     (case elt of
        KeyValueExpr k v \<Rightarrow>
          (case k of
             Ident key \<Rightarrow>
               if Name key = ''TLSConfig'' then nested_tls_issues r ctx v
               else if Name key = ''ReadTimeout'' \<or> Name key = ''WriteTimeout'' \<or>
                       Name key = ''IdleTimeout'' then
                 (if \<not> is_BasicLit v then
                    (let hasMissingTimeout = (if has_key elts (Name key) then False else True)
                     in if hasMissingTimeout
                        then [NewIssue (http_base r) lit_pos ctx
                                (missing_timeout_message (Name key))]
                        else [])
                  else [])
               else []
           | _ \<Rightarrow> [])
      | _ \<Rightarrow> [])"

definition checkHTTPServer ::
  "InsecureHTTPRule \<Rightarrow> Context \<Rightarrow> Pos \<Rightarrow> expr list \<Rightarrow> Issue list" where
  "checkHTTPServer r ctx lit_pos elts =
     concat (map (server_elt_issues r ctx lit_pos elts) elts) @
     (if \<not> has_key elts ''TLSConfig''
      then [NewIssue (http_base r) lit_pos ctx no_tls_message] else [])"

definition http_issues :: "InsecureHTTPRule \<Rightarrow> Context \<Rightarrow> node \<Rightarrow> Issue list" where
  "http_issues r ctx n =
     (case n of
        NExpr (CompositeLit t lb elts) \<Rightarrow>
          if isTLSConfigLiteral t then checkTLSConfig r ctx elts
          else if isHTTPTransportLiteral t then checkHTTPTransport r ctx elts
          else if isHTTPServerLiteral t
            then checkHTTPServer r ctx (expr_pos (CompositeLit t lb elts)) elts
          else []
      | NExpr (CallExpr f args) \<Rightarrow>
          (case f of
             SelectorExpr x sel \<Rightarrow>
               if isInsecureHTTPFunction x sel
               then [NewIssue (http_base r) (expr_pos f) ctx
                       (insecure_function_message (Name sel))]
               else []
           | _ \<Rightarrow> []) @
          (if isHTTPURLInCode args
           then [NewIssue (http_base r) (expr_pos f) ctx http_url_message] else [])
      | _ \<Rightarrow> [])"

definition InsecureHTTPRule_Check :: "InsecureHTTPRule \<Rightarrow> Context \<Rightarrow> Issue list" where
  "InsecureHTTPRule_Check r ctx =
     fold (\<lambda>n issues. issues @ http_issues r ctx n) (Inspect_nodes (NFile (ctxFile ctx))) []"

text \<open>
  A server literal without any timeout: the file
  \<^verbatim>\<open>package main

func newServer() *http.Server {
	return &http.Server{Addr: ":8080"}
}\<close>
\<close>

definition server_literal :: expr where
  "server_literal =
     CompositeLit
       (Some (SelectorExpr (Ident (mk_ident 56 ''http'' None)) (mk_ident 61 ''Server'' None)))
       67
       [KeyValueExpr (Ident (mk_ident 68 ''Addr'' None))
                     (BasicLit (mk_lit 74 T_STRING (quoted '':8080'')))]"

definition server_scenario_file :: ast_file where
  "server_scenario_file =
     File 1 (mk_ident 9 ''main'' None)
       [FuncDecl None (mk_ident 20 ''newServer'' (Some (Object ''newServer'' 20)))
          (FuncType 15 (Some (FieldList 29 []))
             (Some (FieldList 0
                [Field_node []
                   (Some (StarExpr 32 (SelectorExpr (Ident (mk_ident 33 ''http'' None))
                                                     (mk_ident 38 ''Server'' None))))
                   None])))
          (Some (BlockStmt 45 [ReturnStmt 48 [UnaryExpr 55 T_AND server_literal]]))]
       []"

definition server_scenario_ctx :: Context where
  "server_scenario_ctx =
     \<lparr> ctxFileSet = line_table server_scenario_source, ctxFile = server_scenario_file,
       ctxConfig = Some DefaultConfig, ctxFilePath = ''server.go'', ctxFileDir = ''.'',
       ctxFileContent = server_scenario_source, ctxPackage = ''main'' \<rparr>"

subsection \<open>internal/rules: InsecureCryptoRule\<close>

record InsecureCryptoRule =
  crypto_base :: BaseRule
  insecureHashAlgorithms :: "string list"
  insecureCipherAlgorithms :: "string list"
  deprecatedCryptoFunctions :: "(string \<times> string) list"
  weakKeyLengths :: "(string \<times> int) list"

definition NewInsecureCryptoRule :: InsecureCryptoRule where
  "NewInsecureCryptoRule =
     \<lparr> crypto_base = \<lparr> rule_id = ''SEC005'',
                         rule_description =
                           ''Use of deprecated or insecure cryptographic functions'',
                         rule_severity = SeverityHigh \<rparr>,
       insecureHashAlgorithms = [''MD4'', ''MD5'', ''SHA1'', ''RIPEMD160''],
       insecureCipherAlgorithms = [''DES'', ''3DES'', ''RC4'', ''Blowfish'', ''IDEA'', ''CAST5''],
       deprecatedCryptoFunctions =
         [(''GenerateKey'', ''GenerateKey may be insecure without proper entropy''),
          (''NewCipher'', ''Make sure a secure encryption algorithm is used''),
          (''Seal'', ''Check the authentication parameters in use''),
          (''Open'', ''Check the authentication parameters in use''),
          (''NewCBCEncrypter'', ''CBC mode can be vulnerable to a padding oracle attack''),
          (''NewCBCDecrypter'', ''CBC mode can be vulnerable to a padding oracle attack''),
          (''NewCTR'', ''CTR mode requires a unique nonce for every message''),
          (''NewOFB'', ''OFB mode requires a unique IV for every message''),
          (''NewCFB'', ''CFB mode requires a unique IV for every message''),
          (''GenerateFromPassword'', ''Check the cost parameters used for bcrypt'')],
       weakKeyLengths =
         [(''RSA'', 2048), (''AES'', 128), (''ECDSA'', 256), (''DSA'', 2048), (''HMAC'', 256)] \<rparr>"

text \<open>The path of an import, without its quotes; an import without a path has none.\<close>

definition import_path :: "spec \<Rightarrow> string option" where
  "import_path s =
     (case s of
        ImportSpec name (Some p) \<Rightarrow> Some (Trim (Value p) [CHR 0x22])
      | _ \<Rightarrow> None)"

definition file_imports :: "ast_file \<Rightarrow> spec list" where
  "file_imports f = (case f of File p name decls imports \<Rightarrow> imports)"

definition hasCryptoImport :: "Context \<Rightarrow> bool" where
  "hasCryptoImport ctx =
     list_ex (\<lambda>imp.
        case import_path imp of
          Some path \<Rightarrow>
            HasPrefix path ''crypto/'' \<or> Contains path ''crypto'' \<or>
            Contains path ''cipher'' \<or> Contains path ''hash''
        | None \<Rightarrow> False) (file_imports (ctxFile ctx))"

definition isImportedFromCrypto :: "Context \<Rightarrow> string \<Rightarrow> bool" where
  "isImportedFromCrypto ctx pkgName =
     list_ex (\<lambda>imp.
        case import_path imp of
          Some path \<Rightarrow> path = ''crypto/'' @ pkgName
        | None \<Rightarrow> False) (file_imports (ctxFile ctx))"

definition md5_message :: string where
  "md5_message = ''MD5 is not recommended for cryptographic purposes''"

definition sha1_message :: string where
  "sha1_message = ''SHA1 is not recommended for cryptographic purposes''"

definition des_message :: string where
  "des_message = ''DES and 3DES are considered deprecated and insecure, use AES''"

definition rc4_message :: string where
  "rc4_message = ''RC4 is considered cryptographically weak, use modern AEAD ciphers''"

definition weak_random_message :: string where
  "weak_random_message = ''Use of an insecure random number generator, use crypto/rand''"

definition bcrypt_cost_message :: string where
  "bcrypt_cost_message = ''The bcrypt cost value is too low, use at least 10''"

definition rsa_key_message :: string where
  "rsa_key_message = ''The RSA key length is not secure enough, it must be >= 2048 bits''"

definition aes_key_message :: string where
  "aes_key_message = ''The AES key is too short, it must be at least 16 bytes (128 bits)''"

definition insecure_hash_message :: "string \<Rightarrow> string" where
  "insecure_hash_message name = ''Use of an insecure hash algorithm: '' @ name"

definition deprecated_cipher_message :: "string \<Rightarrow> string" where
  "deprecated_cipher_message name = ''Use of a deprecated cipher: '' @ name"

text \<open>
  \<open>checkCryptoCall\<close>: a sequence of independent tests, each appending to the issues.
  \<open>pos\<close> is \<open>callExpr.Pos()\<close> and \<open>args\<close> are the arguments of the call.
\<close>

definition checkCryptoCall ::
  "InsecureCryptoRule \<Rightarrow> string \<Rightarrow> string \<Rightarrow> Pos \<Rightarrow> expr list \<Rightarrow> Context \<Rightarrow> Issue list"
where
  "checkCryptoCall r pkgName funcName pos args ctx =
     (if pkgName = ''md5'' \<and> funcName = ''New''
      then [NewIssue (crypto_base r) pos ctx md5_message] else []) @
     (if pkgName = ''sha1'' \<and> funcName = ''New''
      then [NewIssue (crypto_base r) pos ctx sha1_message] else []) @
     (if pkgName = ''des'' \<and> (funcName = ''NewCipher'' \<or> funcName = ''NewTripleDESCipher'')
      then [NewIssue (crypto_base r) pos ctx des_message] else []) @
     (if pkgName = ''rc4'' \<and> funcName = ''NewCipher''
      then [NewIssue (crypto_base r) pos ctx rc4_message] else []) @
     (if pkgName = ''cipher'' then
        (case map_of (deprecatedCryptoFunctions r) funcName of
           Some message \<Rightarrow> [NewIssue (crypto_base r) pos ctx message]
         | None \<Rightarrow> [])
      else []) @
     (if pkgName = ''rand'' \<and> funcName = ''Read'' then
        (if \<not> isImportedFromCrypto ctx ''rand''
         then [NewIssue (crypto_base r) pos ctx weak_random_message] else [])
      else []) @
     (if pkgName = ''bcrypt'' \<and> funcName = ''GenerateFromPassword'' then
        (if length args \<ge> 2 then
           (case args ! 1 of
              BasicLit l \<Rightarrow>
                if Kind l = T_INT then
                  (if Value l = ''4'' \<or> Value l = ''5'' \<or> Value l = ''6''
                   then [NewIssue (crypto_base r) pos ctx bcrypt_cost_message] else [])
                else []
            | _ \<Rightarrow> [])
         else [])
      else [])"

text \<open>
  \<open>fmt.Sscanf(s, "%d", &value)\<close> on the text of an integer literal: the longest prefix
  of decimal digits is read as a number; there must be a digit, and the number must
  fit a 64-bit \<open>int\<close>.
\<close>

definition digit_value :: "char \<Rightarrow> int" where
  "digit_value c = int (of_char c) - 48"

definition Sscanf_d :: "string \<Rightarrow> int option" where
  "Sscanf_d s =
     (let ds = takeWhile is_digit s;
          n = foldl (\<lambda>acc c. 10 * acc + digit_value c) 0 ds
      in if ds = [] \<or> n > 9223372036854775807 then None else Some n)"

definition checkKeyGeneration ::
  "InsecureCryptoRule \<Rightarrow> string \<Rightarrow> string \<Rightarrow> Pos \<Rightarrow> expr list \<Rightarrow> Context \<Rightarrow> Issue list"
where
  "checkKeyGeneration r pkgName funcName pos args ctx =
     (if pkgName = ''rsa'' \<and> funcName = ''GenerateKey'' then
        (if length args \<ge> 1 then
           (case args ! 0 of
              BasicLit l \<Rightarrow>
                if Kind l = T_INT then
                  (case Sscanf_d (Value l) of
                     Some v \<Rightarrow>
                       if v < 2048 then [NewIssue (crypto_base r) pos ctx rsa_key_message]
                       else []
                   | None \<Rightarrow> [])
                else []
            | _ \<Rightarrow> [])
         else [])
      else []) @
     (if pkgName = ''aes'' \<and> funcName = ''NewCipher'' then
        (if length args \<ge> 1 then
           (case args ! 0 of
              Ident i \<Rightarrow>
                if length (Name i) < 16 then [NewIssue (crypto_base r) pos ctx aes_key_message]
                else []
            | _ \<Rightarrow> [])
         else [])
      else [])"

definition crypto_issues :: "InsecureCryptoRule \<Rightarrow> Context \<Rightarrow> node \<Rightarrow> Issue list" where
  "crypto_issues r ctx n =
     (case n of
        NExpr (SelectorExpr x sel) \<Rightarrow>
          (case x of
             Ident i \<Rightarrow>
               (if Name i = ''md5'' \<or> Name i = ''sha1''
                then [NewIssue (crypto_base r) (expr_pos x) ctx (insecure_hash_message (Name i))]
                else []) @
               (if Name i = ''des'' \<or> Name i = ''rc4''
                then [NewIssue (crypto_base r) (expr_pos x) ctx
                        (deprecated_cipher_message (Name i))]
                else []) @
               (if Name i = ''crypto'' \<and> Name sel \<in> set (insecureHashAlgorithms r)
                then [NewIssue (crypto_base r) (expr_pos x) ctx
                        (insecure_hash_message (Name sel))]
                else [])
           | _ \<Rightarrow> [])
      | NExpr (CallExpr f args) \<Rightarrow>
          (case f of
             SelectorExpr x sel \<Rightarrow>
               (case x of
                  Ident i \<Rightarrow> checkCryptoCall r (Name i) (Name sel) (expr_pos f) args ctx
                | _ \<Rightarrow> [])
           | _ \<Rightarrow> [])
      | NSpec (ValueSpec names typ vals) \<Rightarrow>
          concat (map (\<lambda>v.
              case v of
                CallExpr f args \<Rightarrow>
                  (case f of
                     SelectorExpr x sel \<Rightarrow>
                       (case x of
                          Ident i \<Rightarrow>
                            checkKeyGeneration r (Name i) (Name sel) (expr_pos f) args ctx
                        | _ \<Rightarrow> [])
                   | _ \<Rightarrow> [])
              | _ \<Rightarrow> []) vals)
      | _ \<Rightarrow> [])"

definition InsecureCryptoRule_Check :: "InsecureCryptoRule \<Rightarrow> Context \<Rightarrow> Issue list" where
  "InsecureCryptoRule_Check r ctx =
     (if \<not> hasCryptoImport ctx then []
      else fold (\<lambda>n issues. issues @ crypto_issues r ctx n)
             (Inspect_nodes (NFile (ctxFile ctx))) [])"

text \<open>
  The scenario of the rule, for a cost literal \<open>c\<close> of one digit: the file
  \<^verbatim>\<open>package main

import "golang.org/x/crypto/bcrypt"

func hash(pwd []byte) {
	bcrypt.GenerateFromPassword(pwd, c)
}\<close>
\<close>

definition bcrypt_import :: spec where
  "bcrypt_import = ImportSpec None (Some (mk_lit 22 T_STRING (quoted ''golang.org/x/crypto/bcrypt'')))"

definition bcrypt_call :: "string \<Rightarrow> expr" where
  "bcrypt_call c =
     CallExpr (SelectorExpr (Ident (mk_ident 77 ''bcrypt'' None))
                            (mk_ident 84 ''GenerateFromPassword'' None))
       [Ident (mk_ident 105 ''pwd'' (Some (Object ''pwd'' 62))),
        BasicLit (mk_lit 110 T_INT c)]"

definition bcrypt_scenario_file :: "string \<Rightarrow> ast_file" where
  "bcrypt_scenario_file c =
     File 1 (mk_ident 9 ''main'' None)
       [GenDecl 15 T_IMPORT [bcrypt_import],
        FuncDecl None (mk_ident 57 ''hash'' (Some (Object ''hash'' 57)))
          (FuncType 52
             (Some (FieldList 61
                [Field_node [mk_ident 62 ''pwd'' (Some (Object ''pwd'' 62))]
                   (Some (ArrayType 66 None (Ident (mk_ident 68 ''byte'' None)))) None]))
             None)
          (Some (BlockStmt 74 [ExprStmt (bcrypt_call c)]))]
       [bcrypt_import]"

definition bcrypt_scenario_ctx :: "string \<Rightarrow> Context" where
  "bcrypt_scenario_ctx c =
     \<lparr> ctxFileSet = line_table (bcrypt_scenario_source c), ctxFile = bcrypt_scenario_file c,
       ctxConfig = Some DefaultConfig, ctxFilePath = ''hash.go'', ctxFileDir = ''.'',
       ctxFileContent = bcrypt_scenario_source c, ctxPackage = ''main'' \<rparr>"

text \<open>The value of an integer literal written in decimal digits.\<close>

definition decimal_value :: "string \<Rightarrow> int" where
  "decimal_value s = foldl (\<lambda>acc c. 10 * acc + digit_value c) 0 s"

subsection \<open>internal/rules: InsecureUserInputRule\<close>

record InsecureUserInputRule =
  ui_base :: BaseRule
  userInputSources :: "string list"
  unsafeFunctions :: "string list"
  commandInjectionRegex :: rx
  xssRegex :: rx

text \<open>
  \<open>(?i)(sh|bash|cmd|powershell|exec|system|popen|run|spawn)\<close> and
  \<open>(?i)(innerHTML|outerHTML|document\.write|eval\(|setTimeout\(|setInterval\(|new\s+Function\()\<close>.
\<close>

definition NewInsecureUserInputRule :: InsecureUserInputRule where
  "NewInsecureUserInputRule =
     \<lparr> ui_base = \<lparr> rule_id = ''SEC006'',
                     rule_description = ''Unsafe handling of user input'',
                     rule_severity = SeverityHigh \<rparr>,
       userInputSources =
         [''r.URL'', ''r.Form'', ''r.PostForm'', ''r.MultipartForm'', ''r.FormValue'',
          ''r.PostFormValue'', ''r.QueryParam'', ''r.Query'', ''r.Param'', ''r.Body'',
          ''json.Unmarshal'', ''json.Decode'', ''xml.Unmarshal'', ''xml.Decode'',
          ''ioutil.ReadAll'', ''bufio.Scanner'', ''bufio.Reader''],
       unsafeFunctions =
         [''exec.Command'', ''os.StartProcess'', ''syscall.Exec'', ''template.HTML'',
          ''template.JS'', ''template.CSS'', ''template.HTMLAttr'', ''template.JSStr'',
          ''os.Open'', ''ioutil.WriteFile'', ''os.Create'', ''http.Get'', ''http.Post'',
          ''http.Do'', ''filepath.Abs'', ''filepath.Join'', ''io.Copy'', ''strconv.Atoi'',
          ''strconv.ParseInt'', ''strconv.ParseFloat'', ''strconv.ParseBool''],
       commandInjectionRegex =
         alts (map lit_ci [''sh'', ''bash'', ''cmd'', ''powershell'', ''exec'', ''system'',
                           ''popen'', ''run'', ''spawn'']),
       xssRegex =
         alts [lit_ci ''innerHTML'', lit_ci ''outerHTML'', lit_ci ''document.write'',
               lit_ci ''eval('', lit_ci ''setTimeout('', lit_ci ''setInterval('',
               seqs [lit_ci ''new'', at_least 1 rx_space, lit_ci ''Function('']] \<rparr>"

fun astToString :: "expr \<Rightarrow> string" where
  "astToString (Ident i) = Name i"
| "astToString (SelectorExpr x sel) =
     (case x of
        Ident i \<Rightarrow> Name i @ ''.'' @ Name sel
      | _ \<Rightarrow> astToString x @ ''.'' @ Name sel)"
| "astToString (CallExpr f args) =
     (case f of SelectorExpr x sel \<Rightarrow> astToString (SelectorExpr x sel) | _ \<Rightarrow> ''call'')"
| "astToString e = ''expr''"

definition names_source :: "InsecureUserInputRule \<Rightarrow> string \<Rightarrow> bool" where
  "names_source r exprStr = list_ex (\<lambda>source. Contains exprStr source) (userInputSources r)"

definition isUserInputSource :: "InsecureUserInputRule \<Rightarrow> expr \<Rightarrow> bool" where
  "isUserInputSource r e =
     (case e of
        SelectorExpr x sel \<Rightarrow> names_source r (astToString (SelectorExpr x sel))
      | CallExpr f args \<Rightarrow>
          (case f of
             SelectorExpr x sel \<Rightarrow> names_source r (astToString (SelectorExpr x sel))
           | _ \<Rightarrow> False)
      | _ \<Rightarrow> False)"

definition isUnsafeFunction :: "InsecureUserInputRule \<Rightarrow> expr \<Rightarrow> ident \<Rightarrow> bool" where
  "isUnsafeFunction r x sel =
     (case x of
        Ident i \<Rightarrow> (Name i @ ''.'' @ Name sel) \<in> set (unsafeFunctions r)
      | _ \<Rightarrow>
          (let exprStr = astToString (SelectorExpr x sel) in
           Name sel \<in> set (unsafeFunctions r) \<or> Contains exprStr ''Command'' \<or>
           Contains exprStr ''Open'' \<or> Contains exprStr ''Write'' \<or>
           Contains exprStr ''HTML'' \<or> MatchString (commandInjectionRegex r) exprStr \<or>
           MatchString (xssRegex r) exprStr))"

text \<open>\<open>userInputVars\<close> is a \<open>map[string]bool\<close> whose entries are all \<open>true\<close>.\<close>

fun containsUserInput :: "InsecureUserInputRule \<Rightarrow> expr \<Rightarrow> string list \<Rightarrow> bool" where
  "containsUserInput r (Ident i) userInputVars = (Name i \<in> set userInputVars)"
| "containsUserInput r (SelectorExpr x sel) userInputVars =
     names_source r (astToString (SelectorExpr x sel))"
| "containsUserInput r (BinaryExpr x op y) userInputVars =
     (containsUserInput r x userInputVars \<or> containsUserInput r y userInputVars)"
| "containsUserInput r (CallExpr f args) userInputVars =
     list_ex (\<lambda>arg. containsUserInput r arg userInputVars) args"
| "containsUserInput r e userInputVars = False"

definition hasWebFramework :: "Context \<Rightarrow> bool" where
  "hasWebFramework ctx =
     (if list_ex (\<lambda>imp.
           case import_path imp of
             Some path \<Rightarrow>
               Contains path ''net/http'' \<or> Contains path ''github.com/gin-gonic'' \<or>
               Contains path ''github.com/gorilla'' \<or>
               Contains path ''github.com/labstack/echo'' \<or>
               Contains path ''github.com/go-chi''
           | None \<Rightarrow> False) (file_imports (ctxFile ctx))
      then True
      else list_ex (\<lambda>n.
           case n of
             NDecl (FuncDecl recv name (FuncType p (Some (FieldList opening params)) results)
                      body) \<Rightarrow>
               list_ex (\<lambda>fld.
                  case fld of
                    Field_node names (Some (SelectorExpr x sel)) tag \<Rightarrow>
                      (let typeStr = astToString (SelectorExpr x sel) in
                       Contains typeStr ''http.Request'' \<or>
                       Contains typeStr ''http.ResponseWriter'')
                  | _ \<Rightarrow> False) params
           | _ \<Rightarrow> False) (Inspect_nodes (NFile (ctxFile ctx))))"

text \<open>The first pass records the names assigned from a source of user input.\<close>

definition tainted_names :: "InsecureUserInputRule \<Rightarrow> node \<Rightarrow> string list" where
  "tainted_names r n =
     (case n of
        NStmt (AssignStmt lhs p tok rhs) \<Rightarrow>
          concat (map (\<lambda>(l, v).
              if isUserInputSource r v then (case l of Ident i \<Rightarrow> [Name i] | _ \<Rightarrow> [])
              else [])
            (zip lhs rhs))
      | NSpec (ValueSpec names typ vals) \<Rightarrow>
          concat (map (\<lambda>(name, v). if isUserInputSource r v then [Name name] else [])
            (zip names vals))
      | _ \<Rightarrow> [])"

definition command_injection_message :: string where
  "command_injection_message =
     ''Potential command injection: user input is used in a command line''"

definition xss_message :: string where
  "xss_message = ''Potential XSS vulnerability: user input is used without escaping''"

definition path_injection_message :: string where
  "path_injection_message =
     ''Potential file path injection: user input is used in file operations''"

definition unsafe_use_message :: "string \<Rightarrow> string" where
  "unsafe_use_message name = ''Unsafe use of user input in function '' @ name"

definition sink_message :: "InsecureUserInputRule \<Rightarrow> string \<Rightarrow> string" where
  "sink_message r name =
     (if Contains name ''Command'' \<or> MatchString (commandInjectionRegex r) name
        then command_injection_message
      else if Contains name ''HTML'' \<or> Contains name ''JS'' \<or> MatchString (xssRegex r) name
        then xss_message
      else if Contains name ''Open'' \<or> Contains name ''File'' \<or> Contains name ''Create''
        then path_injection_message
      else unsafe_use_message name)"

definition input_issues ::
  "InsecureUserInputRule \<Rightarrow> Context \<Rightarrow> string list \<Rightarrow> node \<Rightarrow> Issue list" where
  "input_issues r ctx userInputVars n =
     (case n of
        NExpr (CallExpr f args) \<Rightarrow>
          (case f of
             SelectorExpr x sel \<Rightarrow>
               if isUnsafeFunction r x sel then
                 concat (map (\<lambda>arg.
                     if containsUserInput r arg userInputVars
                     then [NewIssue (ui_base r) (expr_pos f) ctx (sink_message r (Name sel))]
                     else []) args)
               else []
           | _ \<Rightarrow> [])
      | _ \<Rightarrow> [])"

definition InsecureUserInputRule_Check :: "InsecureUserInputRule \<Rightarrow> Context \<Rightarrow> Issue list" where
  "InsecureUserInputRule_Check r ctx =
     (if \<not> hasWebFramework ctx then []
      else
        (let userInputVars =
               fold (\<lambda>n vars. vars @ tainted_names r n) (Inspect_nodes (NFile (ctxFile ctx))) []
         in fold (\<lambda>n issues. issues @ input_issues r ctx userInputVars n)
              (Inspect_nodes (NFile (ctxFile ctx))) []))"

subsection \<open>pkg/config: ShouldExclude\<close>

text \<open>
  The functions of Go's standard library that the analyzer and \<open>ShouldExclude\<close> call
  are parameters of the model: \<open>os.ReadFile\<close>, \<open>parser.ParseFile\<close> and, of
  \<open>path/filepath\<close>, \<open>Dir\<close>, \<open>Base\<close>, \<open>Match\<close>, \<open>IsAbs\<close> and \<open>Rel\<close>.  A call
  that returns a Go error returns \<open>Inl\<close>.  The file set that \<open>ParseFile\<close> fills
  is the line table of the content.
\<close>

datatype error = Error string

record Env =
  os_ReadFile :: "string \<Rightarrow> error + string"
  parser_ParseFile :: "string \<Rightarrow> string \<Rightarrow> error + ast_file"
  filepath_Dir :: "string \<Rightarrow> string"
  filepath_Base :: "string \<Rightarrow> string"
  filepath_Match :: "string \<Rightarrow> string \<Rightarrow> error + bool"
  filepath_IsAbs :: "string \<Rightarrow> bool"
  filepath_Rel :: "string \<Rightarrow> string \<Rightarrow> error + string"

definition pattern_excludes :: "Env \<Rightarrow> string \<Rightarrow> string \<Rightarrow> bool" where
  "pattern_excludes env path pattern =
     (if (case filepath_Match env pattern (filepath_Base env path) of
            Inr matched \<Rightarrow> matched
          | Inl err \<Rightarrow> False)
      then True
      else if filepath_IsAbs env path \<and> filepath_IsAbs env pattern then
        (case filepath_Rel env pattern path of
           Inr relPath \<Rightarrow> \<not> filepath_IsAbs env relPath \<and> \<not> HasPrefix relPath ''..''
         | Inl err \<Rightarrow> False)
      else False)"

definition ShouldExclude :: "Env \<Rightarrow> Config \<Rightarrow> string \<Rightarrow> bool" where
  "ShouldExclude env c path = list_ex (pattern_excludes env path) (Exclude c)"

subsection \<open>internal/analyzer: Analyzer\<close>

text \<open>
  The interface \<open>Rule\<close>: a value with the four methods.  \<open>Check\<close> either returns its
  issues or panics.
\<close>

record Rule =
  Rule_ID :: string
  Rule_Description :: string
  Rule_Severity :: Severity
  Rule_Check :: "Context \<Rightarrow> panic + Issue list"

definition base_rule :: "BaseRule \<Rightarrow> (Context \<Rightarrow> panic + Issue list) \<Rightarrow> Rule" where
  "base_rule b check =
     \<lparr> Rule_ID = rule_id b, Rule_Description = rule_description b,
       Rule_Severity = rule_severity b, Rule_Check = check \<rparr>"

record Analyzer =
  config :: "Config option"
  rules :: "Rule list"

definition New :: "Config option \<Rightarrow> Analyzer" where
  "New cfg =
     \<lparr> config = cfg,
       rules =
         [base_rule (sql_base NewSQLInjectionRule)
            (\<lambda>ctx. Inr (SQLInjectionRule_Check NewSQLInjectionRule ctx)),
          base_rule (hs_base NewHardcodedSecretsRule)
            (\<lambda>ctx. Inr (HardcodedSecretsRule_Check NewHardcodedSecretsRule ctx)),
          base_rule (http_base NewInsecureHTTPRule)
            (\<lambda>ctx. Inr (InsecureHTTPRule_Check NewInsecureHTTPRule ctx)),
          base_rule (mec_base NewMissingErrorCheckRule)
            (MissingErrorCheckRule_Check NewMissingErrorCheckRule),
          base_rule (crypto_base NewInsecureCryptoRule)
            (\<lambda>ctx. Inr (InsecureCryptoRule_Check NewInsecureCryptoRule ctx)),
          base_rule (ui_base NewInsecureUserInputRule)
            (\<lambda>ctx. Inr (InsecureUserInputRule_Check NewInsecureUserInputRule ctx))] \<rparr>"

definition isRuleEnabled :: "Analyzer \<Rightarrow> string \<Rightarrow> bool" where
  "isRuleEnabled a ruleID =
     (case config a of None \<Rightarrow> True | Some c \<Rightarrow> IsRuleEnabled c ruleID)"

text \<open>The loop of \<open>analyzeFile\<close> over the rules; a panic of a rule ends it.\<close>

fun run_rules :: "Analyzer \<Rightarrow> Context \<Rightarrow> Rule list \<Rightarrow> Issue list \<Rightarrow> panic + Issue list" where
  "run_rules a ctx [] issues = Inr issues"
| "run_rules a ctx (rule # rs) issues =
     (if \<not> isRuleEnabled a (Rule_ID rule) then run_rules a ctx rs issues
      else case Rule_Check rule ctx of
             Inl p \<Rightarrow> Inl p
           | Inr ruleIssues \<Rightarrow> run_rules a ctx rs (issues @ ruleIssues))"

definition package_name :: "ast_file \<Rightarrow> string" where
  "package_name f = (case f of File p name decls imports \<Rightarrow> Name name)"

text \<open>
  \<open>analyzeFile\<close> returns \<open>(issues, err)\<close>: \<open>Inr (Inl err)\<close> is the return of an error,
  \<open>Inr (Inr issues)\<close> the return of issues with a nil error, \<open>Inl\<close> a panic.  Logging
  has no effect on the result and is left out.
\<close>

definition analyzeFile :: "Env \<Rightarrow> Analyzer \<Rightarrow> string \<Rightarrow> panic + (error + Issue list)" where
  "analyzeFile env a filePath =
     (if (case config a of Some c \<Rightarrow> ShouldExclude env c filePath | None \<Rightarrow> False)
      then Inr (Inr [])
      else
        case os_ReadFile env filePath of
          Inl err \<Rightarrow> Inr (Inl err)
        | Inr content \<Rightarrow>
            (case parser_ParseFile env filePath content of
               Inl err \<Rightarrow> Inr (Inl err)
             | Inr f \<Rightarrow>
                 (case run_rules a
                         \<lparr> ctxFileSet = line_table content, ctxFile = f, ctxConfig = config a,
                           ctxFilePath = filePath, ctxFileDir = filepath_Dir env filePath,
                           ctxFileContent = content, ctxPackage = package_name f \<rparr>
                         (rules a) [] of
                    Inl p \<Rightarrow> Inl p
                  | Inr issues \<Rightarrow> Inr (Inr issues))))"

text \<open>
  \<open>AnalyzeFiles\<close> starts one goroutine per path, at most ten at a time; each one runs
  \<open>analyzeFile\<close> and, holding the mutex, appends its issues to \<open>allIssues\<close>.  The
  goroutines take the mutex in an order the scheduler decides: \<open>order\<close> lists the
  indices of the paths in that order, and the model admits every order.  A goroutine
  whose \<open>analyzeFile\<close> returns an error logs it and appends nothing.  A panic in a
  goroutine is not recovered anywhere and ends the program.  The error that
  \<open>AnalyzeFiles\<close> returns is always nil (\<open>None\<close>).
\<close>

fun collect :: "Env \<Rightarrow> Analyzer \<Rightarrow> string list \<Rightarrow> Issue list \<Rightarrow> panic + Issue list" where
  "collect env a [] allIssues = Inr allIssues"
| "collect env a (path # paths) allIssues =
     (case analyzeFile env a path of
        Inl p \<Rightarrow> Inl p
      | Inr (Inl err) \<Rightarrow> collect env a paths allIssues
      | Inr (Inr issues) \<Rightarrow>
          collect env a paths (if length issues > 0 then allIssues @ issues else allIssues))"

definition AnalyzeFiles ::
  "Env \<Rightarrow> Analyzer \<Rightarrow> nat list \<Rightarrow> string list \<Rightarrow> panic + (Issue list \<times> error option)" where
  "AnalyzeFiles env a order filePaths =
     (case collect env a (map (\<lambda>i. filePaths ! i) order) [] of
        Inl p \<Rightarrow> Inl p
      | Inr allIssues \<Rightarrow> Inr (allIssues, None))"

text \<open>The issues one path contributes: none when its analysis returns an error.\<close>

definition file_issues :: "Env \<Rightarrow> Analyzer \<Rightarrow> string \<Rightarrow> Issue list" where
  "file_issues env a path =
     (case analyzeFile env a path of Inr (Inr issues) \<Rightarrow> issues | _ \<Rightarrow> [])"

definition analysed :: "Env \<Rightarrow> Analyzer \<Rightarrow> string \<Rightarrow> bool" where
  "analysed env a path =
     (\<not> (case config a of Some c \<Rightarrow> ShouldExclude env c path | None \<Rightarrow> False) \<and>
      (case os_ReadFile env path of
         Inl err \<Rightarrow> False
       | Inr content \<Rightarrow>
           (case parser_ParseFile env path content of Inl err \<Rightarrow> False | Inr f \<Rightarrow> True)))"

definition returns_normally :: "Env \<Rightarrow> Analyzer \<Rightarrow> string \<Rightarrow> bool" where
  "returns_normally env a path = (case analyzeFile env a path of Inl p \<Rightarrow> False | Inr r \<Rightarrow> True)"

text \<open>
  A file system for the examples: \<open>files\<close> maps the paths that can be read to their
  content and \<open>trees\<close> the contents that parse to their tree.  The paths of the
  examples are bare file names, for which \<open>Dir\<close> is \<open>.\<close> and \<open>Base\<close> the name itself;
  \<open>Match\<close> is given for a pattern that is literal text, or a \<open>*\<close> followed by
  literal text, which covers the patterns of the default configuration.
\<close>

definition is_meta :: "char \<Rightarrow> bool" where
  "is_meta c = (c \<in> set (''*?['' @ [CHR 0x5C]))"

definition literal_glob :: "string \<Rightarrow> string \<Rightarrow> error + bool" where
  "literal_glob pattern name =
     (case pattern of
        [] \<Rightarrow> Inr (name = [])
      | c # rest \<Rightarrow>
          if list_ex is_meta rest then Inl (Error ''pattern outside the example model'')
          else if c = CHR ''*'' then
            Inr (HasSuffix name rest \<and>
                 CHR ''/'' \<notin> set (take (length name - length rest) name))
          else if is_meta c then Inl (Error ''pattern outside the example model'')
          else Inr (name = pattern))"

definition example_env :: "(string \<times> string) list \<Rightarrow> (string \<times> ast_file) list \<Rightarrow> Env" where
  "example_env files trees =
     \<lparr> os_ReadFile =
         (\<lambda>path. case map_of files path of
                    Some content \<Rightarrow> Inr content
                  | None \<Rightarrow> Inl (Error ''no such file or directory'')),
       parser_ParseFile =
         (\<lambda>path content. case map_of trees content of
                            Some f \<Rightarrow> Inr f
                          | None \<Rightarrow> Inl (Error ''syntax error'')),
       filepath_Dir = (\<lambda>path. ''.''),
       filepath_Base = (\<lambda>path. path),
       filepath_Match = literal_glob,
       filepath_IsAbs = (\<lambda>path. HasPrefix path ''/''),
       filepath_Rel = (\<lambda>base target. Inl (Error ''Rel: outside the example model'')) \<rparr>"

definition example_files :: "(string \<times> string) list" where
  "example_files =
     [(''query.go'', sql_scenario_source), (''check.go'', reversed_check_source),
      (''files.go'', errcheck_scenario_source), (''broken.go'', ''package''),
      (''files_test.go'', errcheck_scenario_source)]"

definition example_trees :: "(string \<times> ast_file) list" where
  "example_trees =
     [(sql_scenario_source, sql_scenario_file), (reversed_check_source, reversed_check_file),
      (errcheck_scenario_source, errcheck_scenario_file)]"

section \<open>Properties\<close>

subsection \<open>Config.IsRuleEnabled\<close>

lemma range_finds_set: "range_finds ids ruleID \<longleftrightarrow> ruleID \<in> set ids"
  by (induction ids) auto

text \<open>
  C10: a rule listed in \<open>DisabledRules\<close> is never enabled, whatever \<open>EnabledRules\<close>
  holds; a rule that is not disabled is enabled when \<open>EnabledRules\<close> is empty, and
  otherwise exactly when it is listed in \<open>EnabledRules\<close>.
\<close>

theorem IsRuleEnabled_spec:
  "(ruleID \<in> set (DisabledRules c) \<longrightarrow> \<not> IsRuleEnabled c ruleID) \<and>
   (ruleID \<notin> set (DisabledRules c) \<longrightarrow> EnabledRules c = [] \<longrightarrow> IsRuleEnabled c ruleID) \<and>
   (ruleID \<notin> set (DisabledRules c) \<longrightarrow> EnabledRules c \<noteq> [] \<longrightarrow>
      (IsRuleEnabled c ruleID \<longleftrightarrow> ruleID \<in> set (EnabledRules c)))"
  by (simp add: IsRuleEnabled_def range_finds_set)

theorem IsRuleEnabled_spec_witness:
  "''SEC001'' \<in> set (DisabledRules (DefaultConfig\<lparr>EnabledRules := [''SEC001'', ''SEC002''],
                                                DisabledRules := [''SEC001'']\<rparr>)) \<and>
   \<not> IsRuleEnabled (DefaultConfig\<lparr>EnabledRules := [''SEC001'', ''SEC002''],
                                  DisabledRules := [''SEC001'']\<rparr>) ''SEC001'' \<and>
   ''SEC003'' \<notin> set (DisabledRules DefaultConfig) \<and> EnabledRules DefaultConfig = [] \<and>
   IsRuleEnabled DefaultConfig ''SEC003'' \<and>
   ''SEC002'' \<notin> set (DisabledRules (DefaultConfig\<lparr>EnabledRules := [''SEC001'', ''SEC002''],
                                                DisabledRules := [''SEC001'']\<rparr>)) \<and>
   EnabledRules (DefaultConfig\<lparr>EnabledRules := [''SEC001'', ''SEC002''],
                              DisabledRules := [''SEC001'']\<rparr>) \<noteq> [] \<and>
   IsRuleEnabled (DefaultConfig\<lparr>EnabledRules := [''SEC001'', ''SEC002''],
                                DisabledRules := [''SEC001'']\<rparr>) ''SEC002'' \<and>
   \<not> IsRuleEnabled (DefaultConfig\<lparr>EnabledRules := [''SEC001'', ''SEC002''],
                                  DisabledRules := [''SEC001'']\<rparr>) ''SEC004''"
  using
    IsRuleEnabled_spec [of "''SEC001''"
      "DefaultConfig\<lparr>EnabledRules := [''SEC001'', ''SEC002''], DisabledRules := [''SEC001'']\<rparr>"]
    IsRuleEnabled_spec [of "''SEC003''" DefaultConfig]
    IsRuleEnabled_spec [of "''SEC002''"
      "DefaultConfig\<lparr>EnabledRules := [''SEC001'', ''SEC002''], DisabledRules := [''SEC001'']\<rparr>"]
    IsRuleEnabled_spec [of "''SEC004''"
      "DefaultConfig\<lparr>EnabledRules := [''SEC001'', ''SEC002''], DisabledRules := [''SEC001'']\<rparr>"]
  by (simp add: DefaultConfig_def)

subsection \<open>sortIssues\<close>

lemma severityOrder_known:
  "severityOrder SeverityCritical = 0" "severityOrder SeverityHigh = 1"
  "severityOrder SeverityMedium = 2" "severityOrder SeverityLow = 3" "severityOrder SeverityInfo = 4"
  by (simp_all add: severityOrder_def SeverityCritical_def SeverityHigh_def SeverityMedium_def
      SeverityLow_def SeverityInfo_def)

lemma severityOrder_inj:
  "s \<in> set known_severities \<Longrightarrow> t \<in> set known_severities \<Longrightarrow>
   severityOrder s = severityOrder t \<Longrightarrow> s = t"
  by (auto simp: known_severities_def severityOrder_known)

lemma issue_less_key:
  assumes "Severity a \<in> set known_severities" "Severity b \<in> set known_severities"
  shows "issue_less a b \<longleftrightarrow> issue_key a < issue_key b"
proof -
  have "Severity a = Severity b \<longleftrightarrow> severityOrder (Severity a) = severityOrder (Severity b)"
    using severityOrder_inj[OF assms] by auto
  then show ?thesis
    unfolding issue_less_def issue_key_def less_prod_def less_eq_prod_def
    by (simp add: le_less) blast
qed

lemma mset_shift_left: "mset (shift_left lt x ps) = add_mset x (mset ps)"
  by (induction ps) auto

lemma mset_fold_shift: "mset (fold (shift_left lt) xs acc) = mset xs + mset acc"
  by (induction xs arbitrary: acc) (auto simp: mset_shift_left)

lemma set_shift_left: "set (shift_left lt x ps) = insert x (set ps)"
  by (induction ps) auto

lemma set_fold_shift: "set (fold (shift_left lt) xs acc) = set xs \<union> set acc"
  by (induction xs arbitrary: acc) (auto simp: set_shift_left)

lemma sorted_shift_left:
  assumes sw: "strict_weak_on A lt" and "x \<in> A" "set ps \<subseteq> A"
    and "sorted_wrt (\<lambda>a b. \<not> lt a b) ps"
  shows "sorted_wrt (\<lambda>a b. \<not> lt a b) (shift_left lt x ps)"
  using assms(2-)
proof (induction ps)
  case Nil thus ?case by simp
next
  case (Cons p ps)
  show ?case
  proof (cases "lt x p")
    case True
    have "\<not> lt p x" using sw Cons.prems True unfolding strict_weak_on_def
      by (metis list.set_intros(1) subsetD)
    with True Cons show ?thesis by (auto simp: set_shift_left)
  next
    case False
    have "\<And>q. q \<in> set ps \<Longrightarrow> \<not> lt x q"
      using sw Cons.prems False unfolding strict_weak_on_def
      by (metis list.set_intros(1,2) sorted_wrt.simps(2) subsetD)
    with False Cons show ?thesis by auto
  qed
qed


lemma insertionSort_contract: "sort_Slice_contract insertionSort"
  unfolding sort_Slice_contract_def
proof (intro allI impI conjI)
  fix lt :: "'a \<Rightarrow> 'a \<Rightarrow> bool" and xs
  assume sw: "strict_weak_on (set xs) lt"
  show "mset (insertionSort lt xs) = mset xs"
    by (simp add: insertionSort_def mset_fold_shift)
  have "set ys \<subseteq> set xs \<Longrightarrow> set acc \<subseteq> set xs \<Longrightarrow> sorted_wrt (\<lambda>a b. \<not> lt a b) acc \<Longrightarrow>
        sorted_wrt (\<lambda>a b. \<not> lt a b) (fold (shift_left lt) ys acc)" for ys acc
  proof (induction ys arbitrary: acc)
    case Nil thus ?case by simp
  next
    case (Cons y ys)
    have "sorted_wrt (\<lambda>a b. \<not> lt a b) (shift_left lt y acc)"
      using sorted_shift_left[OF sw _ Cons.prems(2) Cons.prems(3), of y] Cons.prems(1) by simp
    moreover have "set (shift_left lt y acc) \<subseteq> set xs"
      using Cons.prems by (simp add: set_shift_left)
    ultimately show ?case using Cons.IH Cons.prems(1) by simp
  qed
  from this[of xs "[]"] have "sorted_wrt (\<lambda>a b. \<not> lt a b) (fold (shift_left lt) xs [])" by simp
  then show "sorted_wrt (\<lambda>a b. \<not> lt b a) (insertionSort lt xs)"
    by (simp add: insertionSort_def sorted_wrt_rev)
qed

lemma issue_less_strict_weak:
  assumes "\<forall>i\<in>set issues. Severity i \<in> set known_severities"
  shows "strict_weak_on (set issues) issue_less"
  unfolding strict_weak_on_def using assms
  by (auto simp: issue_less_key)

text \<open>
  C1: \<open>sortIssues\<close> returns a permutation of its input that is non-decreasing in the
  lexicographic key (severity rank, file path, line); the ranks of Critical, High,
  Medium, Low and Info are 0, 1, 2, 3 and 4, pairwise distinct.  \<open>Severity\<close> is a
  string type in Go; the issues of the claim carry one of the five declared
  severities, which is the second hypothesis.  The first one is the library contract
  of \<open>sort.Slice\<close>.
\<close>

theorem sortIssues_sorted_permutation:
  assumes "sort_Slice_contract sort_Slice"
    and "\<forall>i\<in>set issues. Severity i \<in> set known_severities"
  shows "mset (sortIssues sort_Slice issues) = mset issues \<and>
         sorted_wrt (\<lambda>a b. issue_key a \<le> issue_key b) (sortIssues sort_Slice issues) \<and>
         map severityOrder known_severities = [0, 1, 2, 3, 4] \<and>
         distinct (map severityOrder known_severities)"
proof -
  let ?ys = "sortIssues sort_Slice issues"
  have sw: "strict_weak_on (set issues) issue_less"
    using assms(2) by (rule issue_less_strict_weak)
  from assms(1) sw have m: "mset ?ys = mset issues"
    and s: "sorted_wrt (\<lambda>a b. \<not> issue_less b a) ?ys"
    unfolding sort_Slice_contract_def sortIssues_def by blast+
  from m have "set ?ys = set issues" by (metis set_mset_mset)
  with assms(2) have v: "\<forall>i\<in>set ?ys. Severity i \<in> set known_severities" by simp
  have "sorted_wrt (\<lambda>a b. issue_key a \<le> issue_key b) ?ys"
    by (rule sorted_wrt_mono_rel[OF _ s]) (use v in \<open>auto simp: issue_less_key\<close>)
  moreover have "map severityOrder known_severities = [0, 1, 2, 3, 4]"
    by (simp add: known_severities_def severityOrder_known)
  ultimately show ?thesis using m by simp
qed

theorem sortIssues_sorted_permutation_witness:
  "sort_Slice_contract (insertionSort :: Issue sorter) \<and>
   list_all (\<lambda>i. Severity i \<in> set known_severities) test_sort_issues \<and>
   mset (sortIssues insertionSort test_sort_issues) = mset test_sort_issues \<and>
   sorted_wrt (\<lambda>a b. issue_key a \<le> issue_key b) (sortIssues insertionSort test_sort_issues) \<and>
   map RuleID (sortIssues insertionSort test_sort_issues) =
     [''SEC004'', ''SEC002'', ''SEC005'', ''SEC003'', ''SEC001'']"
proof -
  have v: "\<forall>i\<in>set test_sort_issues. Severity i \<in> set known_severities"
    by (simp add: test_sort_issues_def known_severities_def)
  have r: "map RuleID (sortIssues insertionSort test_sort_issues) =
     [''SEC004'', ''SEC002'', ''SEC005'', ''SEC003'', ''SEC001'']"
    by (simp add: sortIssues_def insertionSort_def test_sort_issues_def issue_less_def
        severityOrder_def SeverityCritical_def SeverityHigh_def SeverityMedium_def
        SeverityLow_def SeverityInfo_def)
  show ?thesis
    using sortIssues_sorted_permutation [OF insertionSort_contract v] insertionSort_contract v r
    by (simp add: list_all_iff)
qed

subsection \<open>SQLInjectionRule\<close>

lemma fold_append_concat: "fold (\<lambda>n acc. acc @ g n) xs acc0 = acc0 @ concat (map g xs)"
  by (induction xs arbitrary: acc0) auto

lemma SQLInjectionRule_Check_concat:
  "SQLInjectionRule_Check r ctx =
     concat (map (\<lambda>n. sql_call_issues r ctx n @ sql_literal_issues r ctx n)
       (Inspect_nodes (NFile (ctxFile ctx))))"
  unfolding SQLInjectionRule_Check_def by (simp add: fold_append_concat)

lemma Contains_percent: "Contains s ''%'' \<longleftrightarrow> CHR ''%'' \<in> set s"
  by (induction s) (auto simp: HasPrefix_def)

lemma match_prefix_Never: "\<not> match_prefix Never s"
  by (induction s) auto

lemma match_prefix_Empty: "match_prefix Empty s"
  by (cases s) auto

lemma match_prefix_safe_verb:
  "match_prefix rx_safe_verb s \<longleftrightarrow>
     (\<exists>d t. s = CHR ''%'' # d # t \<and> d \<in> set ''dtv'')"
  apply (cases s; simp add: rx_safe_verb_def match_prefix_Never)
  subgoal for c s'
    by (cases s'; auto simp add: match_prefix_Never match_prefix_Empty)
  done

lemma match_prefix_other_verb:
  "match_prefix rx_other_verb s \<longleftrightarrow>
     (\<exists>d t. s = CHR ''%'' # d # t \<and> d \<notin> set ''dtv'')"
  apply (cases s; simp add: rx_other_verb_def match_prefix_Never)
  subgoal for c s'
    by (cases s'; auto simp add: match_prefix_Never match_prefix_Empty)
  done

lemma MatchString_safe_verb:
  "MatchString rx_safe_verb s \<longleftrightarrow> (\<exists>v\<in>set (placeholders s). v \<in> set ''dtv'')"
proof (induction s rule: placeholders.induct)
  case 1
  show ?case by (simp add: rx_safe_verb_def)
next
  case (2 c)
  show ?case by (simp add: rx_safe_verb_def match_prefix_Never)
next
  case (3 c d s)
  then show ?case
    by (auto simp: match_prefix_safe_verb simp del: match_prefix.simps)
qed

lemma MatchString_other_verb:
  "MatchString rx_other_verb s \<longleftrightarrow> (\<exists>v\<in>set (placeholders s). v \<notin> set ''dtv'')"
proof (induction s rule: placeholders.induct)
  case 1
  show ?case by (simp add: rx_other_verb_def)
next
  case (2 c)
  show ?case by (simp add: rx_other_verb_def match_prefix_Never)
next
  case (3 c d s)
  then show ?case
    by (auto simp: match_prefix_other_verb simp del: match_prefix.simps)
qed

lemma template_check_safe:
  "(\<not> Contains t ''%'' \<or> MatchString rx_safe_verb t \<and> \<not> MatchString rx_other_verb t)
     \<longleftrightarrow> safe_template t"
  unfolding Contains_percent MatchString_safe_verb MatchString_other_verb safe_template_def
  by (cases "placeholders t") (auto simp: list_all_iff)

lemma isRiskySQLQuery_spec: "isRiskySQLQuery arg re = risky_by_spec arg"
proof (cases arg)
  case (CallExpr f args)
  show ?thesis
  proof (cases f)
    case (SelectorExpr x sel)
    show ?thesis
    proof (cases args)
      case Nil
      with CallExpr SelectorExpr show ?thesis by (simp add: risky_by_spec_def)
    next
      case (Cons a as)
      show ?thesis
      proof (cases a)
        case (BasicLit b)
        with CallExpr SelectorExpr Cons template_check_safe[of "Value b"] show ?thesis
          by (auto simp add: risky_by_spec_def)
      qed (use CallExpr SelectorExpr Cons in \<open>simp_all add: risky_by_spec_def\<close>)
    qed
  qed (use CallExpr in \<open>simp_all add: risky_by_spec_def\<close>)
qed (simp_all add: risky_by_spec_def)

lemma SQLInjectionRule_Check_includes:
  assumes "n \<in> set (Inspect_nodes (NFile (ctxFile ctx)))"
  shows "set (sql_call_issues r ctx n) \<subseteq> set (SQLInjectionRule_Check r ctx)"
  unfolding SQLInjectionRule_Check_concat using assms by auto

text \<open>
  C3: on a call whose method name is in the vulnerable vocabulary and that has an
  argument, the rule's callback raises its issue exactly when the first argument is
  risky in the sense of the specification, and the issue is then part of the result of
  \<open>Check\<close> for every file that contains the call; a first argument that is a literal is
  never flagged.
\<close>

theorem sql_call_flagged_iff_risky:
  assumes "isVulnerableSQLMethod (Name sel)"
  shows "sql_call_issues r ctx (NExpr (CallExpr (SelectorExpr x sel) (arg # args))) =
           (if risky_by_spec arg
            then [NewIssue (sql_base r) (expr_pos x) ctx sql_call_message] else []) \<and>
         (NExpr (CallExpr (SelectorExpr x sel) (arg # args))
            \<in> set (Inspect_nodes (NFile (ctxFile ctx))) \<longrightarrow> risky_by_spec arg \<longrightarrow>
          NewIssue (sql_base r) (expr_pos x) ctx sql_call_message
            \<in> set (SQLInjectionRule_Check r ctx)) \<and>
         (\<forall>b. arg = BasicLit b \<longrightarrow>
            sql_call_issues r ctx (NExpr (CallExpr (SelectorExpr x sel) (arg # args))) = [])"
proof (intro conjI impI allI)
  let ?call = "NExpr (CallExpr (SelectorExpr x sel) (arg # args))"
  show a: "sql_call_issues r ctx ?call =
           (if risky_by_spec arg
            then [NewIssue (sql_base r) (expr_pos x) ctx sql_call_message] else [])"
    using assms by (simp add: sql_call_issues_def isRiskySQLQuery_spec)
  show "NewIssue (sql_base r) (expr_pos x) ctx sql_call_message
             \<in> set (SQLInjectionRule_Check r ctx)"
    if "?call \<in> set (Inspect_nodes (NFile (ctxFile ctx)))" "risky_by_spec arg"
    using SQLInjectionRule_Check_includes[OF that(1), of r] a that(2) by simp
  show "sql_call_issues r ctx ?call = []" if "arg = BasicLit b" for b
    using a that by (simp add: risky_by_spec_def)
qed

theorem sql_call_flagged_iff_risky_witness:
  "isVulnerableSQLMethod ''Query'' \<and>
   risky_by_spec (Ident (mk_ident 114 ''query'' (Some (Object ''query'' 57)))) \<and>
   sql_call_issues NewSQLInjectionRule sql_scenario_ctx (NExpr sql_query_call) =
     [NewIssue (sql_base NewSQLInjectionRule) 105 sql_scenario_ctx sql_call_message] \<and>
   \<not> risky_by_spec
       (CallExpr (SelectorExpr (Ident (mk_ident 120 ''fmt'' None)) (mk_ident 124 ''Sprintf'' None))
          [BasicLit (mk_lit 132 T_STRING (quoted ''SELECT * FROM t WHERE id = %d'')),
           Ident (mk_ident 163 ''id'' None)]) \<and>
   sql_call_issues NewSQLInjectionRule sql_scenario_ctx
     (NExpr (CallExpr
        (SelectorExpr (Ident (mk_ident 105 ''db'' (Some (Object ''db'' 32))))
           (mk_ident 108 ''Query'' None))
        [CallExpr (SelectorExpr (Ident (mk_ident 120 ''fmt'' None)) (mk_ident 124 ''Sprintf'' None))
           [BasicLit (mk_lit 132 T_STRING (quoted ''SELECT * FROM t WHERE id = %d'')),
            Ident (mk_ident 163 ''id'' None)]])) = []"
proof -
  have v: "isVulnerableSQLMethod (Name (mk_ident 108 ''Query'' None))"
    by (simp add: isVulnerableSQLMethod_def mk_ident_def)
  have r1: "risky_by_spec (Ident (mk_ident 114 ''query'' (Some (Object ''query'' 57))))"
    by (simp add: risky_by_spec_def)
  have r2: "\<not> risky_by_spec
       (CallExpr (SelectorExpr (Ident (mk_ident 120 ''fmt'' None)) (mk_ident 124 ''Sprintf'' None))
          [BasicLit (mk_lit 132 T_STRING (quoted ''SELECT * FROM t WHERE id = %d'')),
           Ident (mk_ident 163 ''id'' None)])"
    by (simp add: risky_by_spec_def mk_ident_def mk_lit_def safe_template_def quoted_def)
  show ?thesis
    using
      sql_call_flagged_iff_risky [OF v, of NewSQLInjectionRule sql_scenario_ctx
        "Ident (mk_ident 105 ''db'' (Some (Object ''db'' 32)))"
        "Ident (mk_ident 114 ''query'' (Some (Object ''query'' 57)))" "[]"]
      sql_call_flagged_iff_risky [OF v, of NewSQLInjectionRule sql_scenario_ctx
        "Ident (mk_ident 105 ''db'' (Some (Object ''db'' 32)))"
        "CallExpr (SelectorExpr (Ident (mk_ident 120 ''fmt'' None)) (mk_ident 124 ''Sprintf'' None))
          [BasicLit (mk_lit 132 T_STRING (quoted ''SELECT * FROM t WHERE id = %d'')),
           Ident (mk_ident 163 ''id'' None)]" "[]"]
      v r1 r2
    by (simp add: sql_query_call_def mk_ident_def)
qed

text \<open>
  C4: on the scenario file the rule returns two issues, not one: the literal
  \<open>"SELECT * FROM t WHERE u='"\<close> is an operand of \<open>+\<close> and is reported by the second
  block of the callback, and the call \<open>db.Query(query)\<close> has an identifier as its first
  argument and is reported by the first block.
\<close>

theorem sql_scenario_two_issues:
  "map Message (SQLInjectionRule_Check NewSQLInjectionRule sql_scenario_ctx) =
     [sql_concat_message, sql_call_message] \<and>
   map Line (SQLInjectionRule_Check NewSQLInjectionRule sql_scenario_ctx) = [4, 5] \<and>
   length (SQLInjectionRule_Check NewSQLInjectionRule sql_scenario_ctx) = 2"
  by code_simp

subsection \<open>MissingErrorCheckRule\<close>

lemma panic_unique: "(x :: panic + 'a) = Inl p \<Longrightarrow> x = Inl NilPointerDereference"
  by (cases p) simp

lemma inspect_panic_at:
  assumes "n \<in> set ns" and "\<And>s. f n s = Inl NilPointerDereference"
  shows "inspect_panic f ns s0 = Inl NilPointerDereference"
  using assms(1)
proof (induction ns arbitrary: s0)
  case Nil
  then show ?case by simp
next
  case (Cons m ms)
  show ?case
  proof (cases "f m s0")
    case (Inl p)
    then show ?thesis by (cases p) simp
  next
    case (Inr s1)
    with Cons assms(2) show ?thesis by (cases "n = m") auto
  qed
qed

lemma error_like_name_not_nil: "error_like_name n \<Longrightarrow> n \<noteq> ''nil''"
  by (auto simp: error_like_name_def HasSuffix_def)

text \<open>
  Whenever a file compares an unresolved \<open>nil\<close> on the left with an identifier named
  like an error on the right, the first pass dereferences the nil \<open>Obj\<close> of \<open>nil\<close>.
\<close>

lemma nil_on_the_left_panics:
  assumes "NExpr (BinaryExpr (Ident n) op (Ident e)) \<in> set (Inspect_nodes (NFile (ctxFile ctx)))"
    and "Name n = ''nil''" and "Obj n = None"
    and "op = T_NEQ \<or> op = T_EQL" and "error_like_name (Name e)"
  shows "MissingErrorCheckRule_Check r ctx = Inl NilPointerDereference"
proof -
  have "isErrorCheck (Ident n) op (Ident e)"
    using assms(2,4,5) error_like_name_not_nil[OF assms(5)]
    by (auto simp: isErrorCheck_def nil_compare_def)
  then have "mark_checked (NExpr (BinaryExpr (Ident n) op (Ident e))) ce = Inl NilPointerDereference"
    for ce
    using assms(3) by (simp add: mark_checked_def mark_comparison_def Obj_Pos_def)
  from inspect_panic_at[OF assms(1), of mark_checked, OF this]
  show ?thesis by (simp add: MissingErrorCheckRule_Check_def)
qed

text \<open>
  C5: the rule does not return on the file with the comparison \<open>nil != err\<close>: it panics
  with a nil pointer dereference while it builds the set of checked errors.  On the
  same file with the comparison written \<open>err != nil\<close> it returns (no issue).
\<close>

theorem reversed_nil_check_panics:
  "MissingErrorCheckRule_Check NewMissingErrorCheckRule reversed_check_ctx =
     Inl NilPointerDereference \<and>
   MissingErrorCheckRule_Check NewMissingErrorCheckRule
     (reversed_check_ctx\<lparr>ctxFile := forward_check_file\<rparr>) = Inr []"
  by code_simp

text \<open>
  C8: on the scenario file the rule returns exactly two issues, for the unchecked calls
  of \<open>Write\<close> and \<open>Close\<close>; the assignment from \<open>os.Create\<close>, whose error goes to
  \<open>_\<close>, raises none, whatever errors are held checked.
\<close>

theorem errcheck_scenario_two_issues:
  "MissingErrorCheckRule_Check NewMissingErrorCheckRule errcheck_scenario_ctx =
     Inr [NewIssue (mec_base NewMissingErrorCheckRule) 87 errcheck_scenario_ctx
            (ignored_call_message ''Write''),
          NewIssue (mec_base NewMissingErrorCheckRule) 112 errcheck_scenario_ctx
            (ignored_call_message ''Close'')] \<and>
   unchecked_issues NewMissingErrorCheckRule errcheck_scenario_ctx checkedErrors
     (NStmt create_assign) = []"
proof
  show "MissingErrorCheckRule_Check NewMissingErrorCheckRule errcheck_scenario_ctx =
     Inr [NewIssue (mec_base NewMissingErrorCheckRule) 87 errcheck_scenario_ctx
            (ignored_call_message ''Write''),
          NewIssue (mec_base NewMissingErrorCheckRule) 112 errcheck_scenario_ctx
            (ignored_call_message ''Close'')]"
    by code_simp
  show "unchecked_issues NewMissingErrorCheckRule errcheck_scenario_ctx checkedErrors
     (NStmt create_assign) = []"
    by (simp add: unchecked_issues_def create_assign_def assign_issues_def unchecked_err_def
        mk_ident_def)
qed

subsection \<open>HardcodedSecretsRule\<close>

text \<open>
  C7: on the scenario file the rule returns exactly two issues, one for each field.
  Both values are likely secrets: trimmed of their quotes they have 16 characters,
  letters and digits, are none of the test values, hold no template marker and are
  neither a URL nor an absolute path; and none of the four patterns matches them.
\<close>

theorem secrets_scenario_two_issues:
  "HardcodedSecretsRule_Check NewHardcodedSecretsRule secrets_scenario_ctx =
     [NewIssue (hs_base NewHardcodedSecretsRule) 101 secrets_scenario_ctx
        (secret_field_message ''Secret''),
      NewIssue (hs_base NewHardcodedSecretsRule) 131 secrets_scenario_ctx
        (secret_field_message ''APIKey'')] \<and>
   isLikelySecret (quoted ''secretValue12345'') \<and>
   isLikelySecret (quoted ''abcdef1234567890'') \<and>
   list_all (\<lambda>v. length v \<ge> 8 \<and> containsAlphaAndNumeric v \<and>
                  v \<notin> set [''password'', ''123456'', ''test'', ''example''] \<and>
                  \<not> Contains v ''${'' \<and> \<not> Contains v ''$('' \<and> \<not> HasPrefix v ''{{'' \<and>
                  \<not> HasPrefix v ''http://'' \<and> \<not> HasPrefix v ''https://'' \<and>
                  \<not> HasPrefix v ''/'')
     [''secretValue12345'', ''abcdef1234567890''] \<and>
   \<not> containsSecretPattern NewHardcodedSecretsRule (quoted ''secretValue12345'') \<and>
   \<not> containsSecretPattern NewHardcodedSecretsRule (quoted ''abcdef1234567890'')"
  by code_simp

subsection \<open>InsecureHTTPRule\<close>

text \<open>
  The timeout branch of \<open>checkHTTPServer\<close> is only reached on an element whose key is
  the timeout, and the search for that key among the elements then finds this very
  element: no element of a server literal raises the missing-timeout issue.
\<close>

lemma server_elt_issues_no_timeout:
  assumes "elt \<in> set elts"
  shows "server_elt_issues r ctx lit_pos elts elt =
           (case elt of
              KeyValueExpr (Ident key) v \<Rightarrow>
                if Name key = ''TLSConfig'' then nested_tls_issues r ctx v else []
            | _ \<Rightarrow> [])"
  using assms
  by (auto simp: server_elt_issues_def has_key_def list_ex_iff split: expr.splits)

lemma checkHTTPServer_without_timeouts:
  "checkHTTPServer r ctx lit_pos elts =
     concat (map (\<lambda>elt. case elt of
                    KeyValueExpr (Ident key) v \<Rightarrow>
                      if Name key = ''TLSConfig'' then nested_tls_issues r ctx v else []
                  | _ \<Rightarrow> []) elts) @
     (if \<not> has_key elts ''TLSConfig''
      then [NewIssue (http_base r) lit_pos ctx no_tls_message] else [])"
proof -
  have eq: "map (server_elt_issues r ctx lit_pos elts) elts =
        map (\<lambda>elt. case elt of
                    KeyValueExpr (Ident key) v \<Rightarrow>
                      if Name key = ''TLSConfig'' then nested_tls_issues r ctx v else []
                  | _ \<Rightarrow> []) elts"
    by (rule map_cong[OF refl]) (rule server_elt_issues_no_timeout)
  show ?thesis unfolding checkHTTPServer_def eq by (rule refl)
qed

text \<open>
  C6: the server literal \<open>http.Server{Addr: ":8080"}\<close> has none of the keys
  \<open>ReadTimeout\<close>, \<open>WriteTimeout\<close>, \<open>IdleTimeout\<close>, and the rule reports one issue for
  it, the missing TLS configuration: no issue for an absent timeout.
\<close>

theorem server_without_timeouts_unreported:
  "map Message (InsecureHTTPRule_Check NewInsecureHTTPRule server_scenario_ctx) =
     [no_tls_message] \<and>
   http_issues NewInsecureHTTPRule server_scenario_ctx (NExpr server_literal) =
     [NewIssue (http_base NewInsecureHTTPRule) 56 server_scenario_ctx no_tls_message] \<and>
   isHTTPServerLiteral
     (Some (SelectorExpr (Ident (mk_ident 56 ''http'' None)) (mk_ident 61 ''Server'' None))) \<and>
   \<not> has_key [KeyValueExpr (Ident (mk_ident 68 ''Addr'' None))
                (BasicLit (mk_lit 74 T_STRING (quoted '':8080'')))] ''ReadTimeout'' \<and>
   \<not> has_key [KeyValueExpr (Ident (mk_ident 68 ''Addr'' None))
                (BasicLit (mk_lit 74 T_STRING (quoted '':8080'')))] ''WriteTimeout'' \<and>
   \<not> has_key [KeyValueExpr (Ident (mk_ident 68 ''Addr'' None))
                (BasicLit (mk_lit 74 T_STRING (quoted '':8080'')))] ''IdleTimeout''"
  by code_simp

subsection \<open>InsecureCryptoRule\<close>

text \<open>
  What \<open>checkCryptoCall\<close> does on \<open>bcrypt.GenerateFromPassword\<close> with an integer
  literal as second argument: it raises the issue for the literals \<open>4\<close>, \<open>5\<close> and
  \<open>6\<close> and for no other.
\<close>

lemma bcrypt_cost_issue:
  assumes "Kind l = T_INT"
  shows "checkCryptoCall r ''bcrypt'' ''GenerateFromPassword'' pos [x, BasicLit l] ctx =
           (if Value l \<in> {''4'', ''5'', ''6''}
            then [NewIssue (crypto_base r) pos ctx bcrypt_cost_message] else [])"
  using assms by (simp add: checkCryptoCall_def)

text \<open>
  C9: the file imports a crypto package and calls
  \<open>bcrypt.GenerateFromPassword(pwd, 7)\<close>; 7 is below 10 and the rule returns no
  issue.  With the cost 4 it returns the one issue about the cost.
\<close>

theorem bcrypt_cost_seven_unreported:
  "hasCryptoImport (bcrypt_scenario_ctx ''7'') \<and> decimal_value ''7'' < 10 \<and>
   InsecureCryptoRule_Check NewInsecureCryptoRule (bcrypt_scenario_ctx ''7'') = [] \<and>
   InsecureCryptoRule_Check NewInsecureCryptoRule (bcrypt_scenario_ctx ''4'') =
     [NewIssue (crypto_base NewInsecureCryptoRule) 77 (bcrypt_scenario_ctx ''4'')
        bcrypt_cost_message]"
  by code_simp

subsection \<open>Analyzer\<close>

lemma collect_returns:
  assumes "\<forall>path\<in>set paths. returns_normally env a path"
  shows "collect env a paths acc = Inr (acc @ concat (map (file_issues env a) paths))"
  using assms
proof (induction paths arbitrary: acc)
  case Nil
  then show ?case by simp
next
  case (Cons path paths)
  from Cons.prems obtain r where r: "analyzeFile env a path = Inr r"
    by (auto simp: returns_normally_def split: sum.splits)
  show ?case
  proof (cases r)
    case (Inl err)
    with r Cons show ?thesis by (simp add: file_issues_def)
  next
    case (Inr issues)
    with r Cons show ?thesis by (cases issues) (simp_all add: file_issues_def)
  qed
qed

lemma not_analysed_no_issues:
  assumes "\<not> analysed env a path"
  shows "file_issues env a path = []"
  using assms
  by (auto simp: analysed_def file_issues_def analyzeFile_def split: sum.splits option.splits)

text \<open>
  Exclusion, a failed read and a failed parse are returns of \<open>analyzeFile\<close>, never
  panics: only the rules, run on a file that was read and parsed, can panic.
\<close>

lemma not_analysed_returns:
  assumes "\<not> analysed env a path"
  shows "returns_normally env a path"
  using assms
  by (auto simp: analysed_def returns_normally_def analyzeFile_def
      split: sum.splits option.splits)

lemma concat_analysed:
  "concat (map (file_issues env a) (filter (analysed env a) paths)) =
   concat (map (file_issues env a) paths)"
  by (induction paths) (auto simp: not_analysed_no_issues)

lemma scheduled_paths:
  assumes "mset order = mset [0..<length filePaths]"
  shows "mset (map (\<lambda>i. filePaths ! i) order) = mset filePaths"
proof -
  have "mset (map (\<lambda>i. filePaths ! i) order) = image_mset (\<lambda>i. filePaths ! i) (mset order)"
    by simp
  also have "\<dots> = mset (map (\<lambda>i. filePaths ! i) [0..<length filePaths])"
    using assms by simp
  also have "\<dots> = mset filePaths"
    by (simp add: map_nth)
  finally show ?thesis .
qed

lemma mset_concat_perm:
  assumes "mset xs = mset ys"
  shows "mset (concat (map f xs)) = mset (concat (map f ys))"
proof -
  have "mset (concat (map f zs)) = (\<Sum>z\<in>#mset zs. mset (f z))" for zs
    by (induction zs) auto
  with assms show ?thesis by simp
qed

text \<open>
  What the dispatcher does when no rule panics on a file that was read and parsed: in
  whatever order the goroutines append, \<open>AnalyzeFiles\<close> returns a nil error and a
  list that is, up to order, the concatenation of the issues of the files that are not
  excluded and were read and parsed; a file that is excluded or whose read or parse
  fails makes \<open>analyzeFile\<close> return and contributes no issue.
\<close>

lemma AnalyzeFiles_without_panic:
  assumes "mset order = mset [0..<length filePaths]"
    and "\<forall>path\<in>set filePaths. analysed env a path \<longrightarrow> returns_normally env a path"
  shows "(\<exists>allIssues.
           AnalyzeFiles env a order filePaths = Inr (allIssues, None) \<and>
           mset allIssues =
             mset (concat (map (file_issues env a) (filter (analysed env a) filePaths)))) \<and>
         (\<forall>path\<in>set filePaths. \<not> analysed env a path \<longrightarrow>
            returns_normally env a path \<and> file_issues env a path = [])"
proof
  let ?ps = "map (\<lambda>i. filePaths ! i) order"
  have all: "\<forall>path\<in>set filePaths. returns_normally env a path"
    using assms(2) not_analysed_returns by blast
  have p: "mset ?ps = mset filePaths"
    using assms(1) by (rule scheduled_paths)
  then have "set ?ps = set filePaths"
    by (rule mset_eq_setD)
  with all have "\<forall>path\<in>set ?ps. returns_normally env a path"
    by simp
  then have c: "collect env a ?ps [] = Inr ([] @ concat (map (file_issues env a) ?ps))"
    by (rule collect_returns)
  have "mset (concat (map (file_issues env a) ?ps)) =
        mset (concat (map (file_issues env a) (filter (analysed env a) filePaths)))"
    unfolding concat_analysed using p by (rule mset_concat_perm)
  with c show "\<exists>allIssues.
           AnalyzeFiles env a order filePaths = Inr (allIssues, None) \<and>
           mset allIssues =
             mset (concat (map (file_issues env a) (filter (analysed env a) filePaths)))"
    by (simp add: AnalyzeFiles_def)
  show "\<forall>path\<in>set filePaths. \<not> analysed env a path \<longrightarrow>
            returns_normally env a path \<and> file_issues env a path = []"
    by (simp add: not_analysed_no_issues not_analysed_returns)
qed

text \<open>
  Five paths: a file with issues, a path that cannot be read, a second file with
  issues, a file that does not parse and a file the default configuration excludes.
\<close>

lemma AnalyzeFiles_without_panic_example:
  "mset [3, 1, 0, 2, 4] =
     mset [0..<length [''query.go'', ''missing.go'', ''files.go'', ''broken.go'',
                       ''files_test.go'']] \<and>
   list_all (returns_normally (example_env example_files example_trees) (New (Some DefaultConfig)))
     [''query.go'', ''missing.go'', ''files.go'', ''broken.go'', ''files_test.go''] \<and>
   filter (analysed (example_env example_files example_trees) (New (Some DefaultConfig)))
     [''query.go'', ''missing.go'', ''files.go'', ''broken.go'', ''files_test.go''] =
     [''query.go'', ''files.go''] \<and>
   (\<exists>allIssues.
      AnalyzeFiles (example_env example_files example_trees) (New (Some DefaultConfig))
        [3, 1, 0, 2, 4]
        [''query.go'', ''missing.go'', ''files.go'', ''broken.go'', ''files_test.go''] =
        Inr (allIssues, None) \<and>
      mset allIssues =
        mset (concat (map (file_issues (example_env example_files example_trees)
                             (New (Some DefaultConfig)))
                        [''query.go'', ''files.go''])) \<and>
      map (\<lambda>i. (RuleID i, FilePath i, Line i)) allIssues =
        [(''SEC001'', ''query.go'', 4), (''SEC001'', ''query.go'', 5),
         (''SEC004'', ''query.go'', 5), (''SEC004'', ''files.go'', 5),
         (''SEC004'', ''files.go'', 6)])"
proof -
  let ?env = "example_env example_files example_trees"
  let ?a = "New (Some DefaultConfig)"
  let ?paths = "[''query.go'', ''missing.go'', ''files.go'', ''broken.go'', ''files_test.go'']"
  have h1: "mset [3, 1, 0, 2, 4] = mset [0..<length ?paths]"
    by code_simp
  have h2: "list_all (returns_normally ?env ?a) ?paths"
    by code_simp
  have h3: "filter (analysed ?env ?a) ?paths = [''query.go'', ''files.go'']"
    by code_simp
  have h4: "map_sum id (map_prod (map (\<lambda>i. (RuleID i, FilePath i, Line i))) id)
              (AnalyzeFiles ?env ?a [3, 1, 0, 2, 4] ?paths) =
            Inr ([(''SEC001'', ''query.go'', 4), (''SEC001'', ''query.go'', 5),
                  (''SEC004'', ''query.go'', 5), (''SEC004'', ''files.go'', 5),
                  (''SEC004'', ''files.go'', 6)], None)"
    by code_simp
  from h2 have h2': "\<forall>path\<in>set ?paths. analysed ?env ?a path \<longrightarrow> returns_normally ?env ?a path"
    unfolding list_all_iff by blast
  from AnalyzeFiles_without_panic [OF h1 h2']
  obtain allIssues where
    r: "AnalyzeFiles ?env ?a [3, 1, 0, 2, 4] ?paths = Inr (allIssues, None)" and
    m: "mset allIssues = mset (concat (map (file_issues ?env ?a) (filter (analysed ?env ?a) ?paths)))"
    by blast
  from h4 have k: "map (\<lambda>i. (RuleID i, FilePath i, Line i)) allIssues =
        [(''SEC001'', ''query.go'', 4), (''SEC001'', ''query.go'', 5),
         (''SEC004'', ''query.go'', 5), (''SEC004'', ''files.go'', 5),
         (''SEC004'', ''files.go'', 6)]"
    unfolding r by simp
  have m': "mset allIssues = mset (concat (map (file_issues ?env ?a) [''query.go'', ''files.go'']))"
    using m unfolding h3 .
  show ?thesis
    by (intro conjI exI[of _ allIssues]) (rule h1 h2 h3 r m' k)+
qed

text \<open>
  C2: \<open>AnalyzeFiles\<close> does not return for every list of paths.  The file
  \<open>check.go\<close> is not excluded, is read and is parsed; it compares \<open>nil != err\<close>,
  the fourth rule panics on it inside the goroutine, nothing recovers the panic and
  the program ends.  Alone or together with \<open>query.go\<close>, in either order of the
  goroutines, no issue list is returned, so the issues of \<open>query.go\<close> are lost too;
  without \<open>check.go\<close> the same analyzer returns them.
\<close>

theorem AnalyzeFiles_panics:
  "analysed (example_env example_files example_trees) (New (Some DefaultConfig)) ''check.go'' \<and>
   AnalyzeFiles (example_env example_files example_trees) (New (Some DefaultConfig)) [0]
     [''check.go''] = Inl NilPointerDereference \<and>
   AnalyzeFiles (example_env example_files example_trees) (New (Some DefaultConfig)) [0, 1]
     [''query.go'', ''check.go''] = Inl NilPointerDereference \<and>
   AnalyzeFiles (example_env example_files example_trees) (New (Some DefaultConfig)) [1, 0]
     [''query.go'', ''check.go''] = Inl NilPointerDereference \<and>
   map_sum id (map_prod (map (\<lambda>i. (RuleID i, FilePath i, Line i))) id)
     (AnalyzeFiles (example_env example_files example_trees) (New (Some DefaultConfig)) [0]
        [''query.go'']) =
     Inr ([(''SEC001'', ''query.go'', 4), (''SEC001'', ''query.go'', 5),
           (''SEC004'', ''query.go'', 5)], None)"
  by code_simp

end
